theory Spec2Isabelle
  imports Complex_Main "HOL-Library.Sublist"
begin

section \<open>Python values, errors and strings\<close>

text \<open>
  The prompt interpreter of \<^verbatim>\<open>SolidworksPromptApp.py\<close> is embedded function by
  function. Conventions of the embedding:

  \<^item> A prompt is a \<open>string\<close> whose characters are the code points 0 to 255
    (ISO-8859-1); \<open>str.lower\<close>, \<open>str.isspace\<close> and the classes \<open>\d\<close>, \<open>\s\<close> are
    written out for that range.
  \<^item> The floating-point operations are a parameter \<open>ops\<close> of every function that
    computes with floats: the type \<open>'f\<close> of the floats, the value of a literal, the
    product, the quotient and the truth value of a float. Nothing is assumed about them,
    so a theorem stated for every \<open>ops\<close> holds for the binary64 arithmetic of the
    interpreter, with its rounding, underflow and overflow. The worked prompts are
    evaluated with \<open>exact\<close>, decimal arithmetic without rounding; at each of them the
    products of binary64 are the same decimal literals.
  \<^item> An exception is a value \<open>Inl e\<close> of the result type \<open>error + 'a\<close>.
  \<^item> A Python variable that holds \<open>None\<close> or a float is an \<open>'f option\<close>.
\<close>

datatype error = ValueError | TypeError | IndexError

definition bind_r :: "error + 'a \<Rightarrow> ('a \<Rightarrow> error + 'b) \<Rightarrow> error + 'b" where
  "bind_r m f = (case m of Inl e \<Rightarrow> Inl e | Inr x \<Rightarrow> f x)"

text \<open>
  The float operations the parser uses: \<open>float(s)\<close> on a decimal literal, a literal
  of the source text (\<open>0.01\<close>, \<open>0.0254\<close>, the \<open>2\<close> of \<open>diameter / 2\<close>), \<open>*\<close>, \<open>/\<close>
  and the truth value of a float (\<open>x != 0.0\<close>).
\<close>

record 'f float_ops =
  f_literal :: "string \<Rightarrow> 'f"
  f_const :: "rat \<Rightarrow> 'f"
  f_mul :: "'f \<Rightarrow> 'f \<Rightarrow> 'f"
  f_div :: "'f \<Rightarrow> 'f \<Rightarrow> 'f"
  f_true :: "'f \<Rightarrow> bool"

text \<open>\<open>str.lower\<close> on code points below 256: A-Z and the accented capitals
  (192 to 222 without the multiplication sign 215) move up by 32.\<close>

definition lower_char :: "char \<Rightarrow> char" where
  "lower_char c =
     (let n = (of_char c :: nat)
      in if (65 \<le> n \<and> n \<le> 90) \<or> (192 \<le> n \<and> n \<le> 222 \<and> n \<noteq> 215)
         then char_of (n + 32) else c)"

definition str_lower :: "string \<Rightarrow> string" where
  "str_lower s = map lower_char s"

text \<open>\<open>str.isspace\<close> and \<open>\s\<close> below 256: tab to carriage return, the separators 28 to
  31, the space, NEL (133) and the no-break space (160).\<close>

definition isspace :: "char \<Rightarrow> bool" where
  "isspace c =
     (let n = (of_char c :: nat)
      in (9 \<le> n \<and> n \<le> 13) \<or> (28 \<le> n \<and> n \<le> 32) \<or> n = 133 \<or> n = 160)"

definition isdigit :: "char \<Rightarrow> bool" where
  "isdigit c = (let n = (of_char c :: nat) in 48 \<le> n \<and> n \<le> 57)"

definition str_strip :: "string \<Rightarrow> string" where
  "str_strip s = rev (dropWhile isspace (rev (dropWhile isspace s)))"

definition rstrip_dot :: "string \<Rightarrow> string" where
  "rstrip_dot s = rev (dropWhile (\<lambda>c. c = CHR ''.'') (rev s))"

text \<open>\<open>w in s\<close> for strings: \<open>w\<close> occurs in \<open>s\<close> as a contiguous substring.\<close>

primrec str_in :: "string \<Rightarrow> string \<Rightarrow> bool" where
  "str_in w [] = (w = [])"
| "str_in w (c # cs) = (prefix w (c # cs) \<or> str_in w cs)"

definition any_in :: "string list \<Rightarrow> string \<Rightarrow> bool" where
  "any_in ws s = list_ex (\<lambda>word. str_in word s) ws"

text \<open>Checked list indexing: \<open>xs[i]\<close> raises \<open>IndexError\<close> out of range.\<close>

definition nth_r :: "'a list \<Rightarrow> nat \<Rightarrow> error + 'a" where
  "nth_r xs i = (if i < length xs then Inr (xs ! i) else Inl IndexError)"

subsection \<open>Truthiness\<close>

text \<open>\<open>None\<close> and \<open>0.0\<close> are false; \<open>a or b\<close> is \<open>a\<close> when \<open>a\<close> is true, else \<open>b\<close>.\<close>

fun truthy :: "'f float_ops \<Rightarrow> 'f option \<Rightarrow> bool" where
  "truthy ops None = False"
| "truthy ops (Some x) = f_true ops x"

definition py_or :: "'f float_ops \<Rightarrow> 'f option \<Rightarrow> 'f option \<Rightarrow> 'f option" where
  "py_or ops a b = (if truthy ops a then a else b)"

subsection \<open>Number conversions\<close>

definition digit_val :: "char \<Rightarrow> nat" where
  "digit_val c = of_char c - 48"

definition nat_of_digits :: "string \<Rightarrow> nat" where
  "nat_of_digits s = foldl (\<lambda>a c. 10 * a + digit_val c) 0 s"

text \<open>
  \<open>float(s)\<close> for the literals that can reach it here: digits with at most one point
  (\<open>"12"\<close>, \<open>"12."\<close>, \<open>"12.5"\<close>, \<open>".5"\<close>). The interpreter also reads signs, exponents,
  underscores and surrounding blanks; no pattern of this program captures such a string,
  and the model answers \<open>ValueError\<close> for every string outside the fragment.
\<close>

definition decimal_literal :: "string \<Rightarrow> bool" where
  "decimal_literal s =
     (let ip = takeWhile isdigit s; rest = dropWhile isdigit s
      in case rest of
           [] \<Rightarrow> ip \<noteq> []
         | c # fp \<Rightarrow> c = CHR ''.'' \<and> list_all isdigit fp \<and> (ip \<noteq> [] \<or> fp \<noteq> []))"

definition py_float :: "'f float_ops \<Rightarrow> string \<Rightarrow> error + 'f" where
  "py_float ops s = (if decimal_literal s then Inr (f_literal ops s) else Inl ValueError)"

text \<open>The number a decimal literal denotes, and the arithmetic without rounding.\<close>

definition decimal_value :: "string \<Rightarrow> rat" where
  "decimal_value s =
     (let ip = takeWhile isdigit s; rest = dropWhile isdigit s
      in of_nat (nat_of_digits ip)
         + (case rest of [] \<Rightarrow> 0 | c # fp \<Rightarrow> of_nat (nat_of_digits fp) / 10 ^ length fp))"

definition exact :: "rat float_ops" where
  "exact = \<lparr>f_literal = decimal_value, f_const = (\<lambda>r. r), f_mul = (\<lambda>a b. a * b),
            f_div = (\<lambda>a b. a / b), f_true = (\<lambda>x. x \<noteq> 0)\<rparr>"

text \<open>
  \<open>int(s)\<close> on a string of decimal digits. CPython (3.11 and later, and the security
  releases of 3.7 to 3.10) refuses to convert a decimal string of more than
  \<open>sys.get_int_max_str_digits()\<close> digit characters and raises \<open>ValueError\<close>; the default
  limit is 4300, and the program never changes it.
\<close>

definition int_max_str_digits :: nat where
  "int_max_str_digits = 4300"

definition py_int :: "string \<Rightarrow> error + int" where
  "py_int s =
     (if s = [] \<or> \<not> list_all isdigit s then Inl ValueError
      else if length s > int_max_str_digits then Inl ValueError
      else Inr (int (nat_of_digits s)))"

section \<open>Regular expressions\<close>

text \<open>
  The patterns of the program use literals, \<open>\d\<close>, \<open>\s\<close>, sequence, alternation, the
  greedy \<open>?\<close>, \<open>*\<close>, \<open>+\<close> and capture groups. \<open>rmatch r s g\<close> lists every way in which
  \<open>r\<close> matches a prefix of \<open>s\<close>, as the rest of the string and the groups captured, in the
  order in which a backtracking matcher tries them: the first alternative first, the
  longest repetition first. \<open>re.search\<close> takes the first success at the leftmost start.
  All matching is done on lowercased text, so the flag \<open>re.IGNORECASE\<close> changes nothing.
\<close>

datatype regex =
    Lit string
  | Digit
  | Space
  | Seq regex regex
  | Alt regex regex
  | Opt regex
  | Star regex
  | Group nat regex

type_synonym groups = "nat \<Rightarrow> string option"

text \<open>A repetition stops when an iteration consumes nothing.\<close>

function star_list ::
  "(string \<Rightarrow> groups \<Rightarrow> (string \<times> groups) list) \<Rightarrow> string \<Rightarrow> groups
     \<Rightarrow> (string \<times> groups) list" where
  "star_list f s g =
     concat (map (\<lambda>x. if length (fst x) < length s then star_list f (fst x) (snd x) else [])
                 (f s g)) @ [(s, g)]"
  by pat_completeness auto
termination
  by (relation "measure (\<lambda>(f, s, g). length s)") auto

declare star_list.simps [simp del]

primrec rmatch :: "regex \<Rightarrow> string \<Rightarrow> groups \<Rightarrow> (string \<times> groups) list" where
  "rmatch (Lit w) s g = (if prefix w s then [(drop (length w) s, g)] else [])"
| "rmatch Digit s g = (case s of [] \<Rightarrow> [] | c # cs \<Rightarrow> if isdigit c then [(cs, g)] else [])"
| "rmatch Space s g = (case s of [] \<Rightarrow> [] | c # cs \<Rightarrow> if isspace c then [(cs, g)] else [])"
| "rmatch (Seq a b) s g = concat (map (\<lambda>x. rmatch b (fst x) (snd x)) (rmatch a s g))"
| "rmatch (Alt a b) s g = rmatch a s g @ rmatch b s g"
| "rmatch (Opt a) s g = rmatch a s g @ [(s, g)]"
| "rmatch (Star a) s g = star_list (rmatch a) s g"
| "rmatch (Group n a) s g =
     map (\<lambda>x. (fst x, (snd x)(n := Some (take (length s - length (fst x)) s))))
         (rmatch a s g)"

definition no_groups :: groups where
  "no_groups = (\<lambda>n. None)"

fun re_search :: "regex \<Rightarrow> string \<Rightarrow> groups option" where
  "re_search r [] = (case rmatch r [] no_groups of [] \<Rightarrow> None | x # xs \<Rightarrow> Some (snd x))"
| "re_search r (c # cs) =
     (case rmatch r (c # cs) no_groups of [] \<Rightarrow> re_search r cs | x # xs \<Rightarrow> Some (snd x))"

text \<open>
  \<open>re.findall\<close>: the matches from left to right, each search starting where the last
  match ended. The patterns given to it here never match the empty string; after an
  empty match the model moves on by one character.
\<close>

function re_findall :: "regex \<Rightarrow> string \<Rightarrow> groups list" where
  "re_findall r s =
     (case rmatch r s no_groups of
        [] \<Rightarrow> (case s of [] \<Rightarrow> [] | c # cs \<Rightarrow> re_findall r cs)
      | x # xs \<Rightarrow>
          if length (fst x) < length s then snd x # re_findall r (fst x)
          else snd x # (case s of [] \<Rightarrow> [] | c # cs \<Rightarrow> re_findall r cs))"
  by pat_completeness auto
termination
  by (relation "measure (\<lambda>(r, s). length s)") auto

declare re_findall.simps [simp del]

fun seqs :: "regex list \<Rightarrow> regex" where
  "seqs [] = Lit []"
| "seqs [r] = r"
| "seqs (r # rs) = Seq r (seqs rs)"

fun alts :: "regex list \<Rightarrow> regex" where
  "alts [] = Lit []"
| "alts [r] = r"
| "alts (r # rs) = Alt r (alts rs)"

definition Plus :: "regex \<Rightarrow> regex" where
  "Plus r = Seq r (Star r)"

text \<open>\<^verbatim>\<open>\d+\.?\d*\<close>\<close>

definition number_re :: regex where
  "number_re = seqs [Plus Digit, Opt (Lit ''.''), Star Digit]"

text \<open>\<^verbatim>\<open>(mm|cm|m|in|inch|inches|ft|feet|foot|")?\<close>, as the group numbered \<open>n\<close>.\<close>

definition unit_re :: "nat \<Rightarrow> regex" where
  "unit_re n = Opt (Group n (alts (map Lit
     [''mm'', ''cm'', ''m'', ''in'', ''inch'', ''inches'', ''ft'', ''feet'', ''foot'',
      [CHR 0x22]])))"

text \<open>\<^verbatim>\<open>{keyword}\s*(?:of|=|:)?\s*(\d+\.?\d*)\s*{unit_pattern}\<close>. Every keyword the
  program passes is made of letters only, so it stands for itself in the pattern.\<close>

definition keyword_first_re :: "string \<Rightarrow> regex" where
  "keyword_first_re keyword =
     seqs [Lit keyword, Star Space, Opt (alts [Lit ''of'', Lit ''='', Lit '':'']), Star Space,
           Group 1 number_re, Star Space, unit_re 2]"

text \<open>\<^verbatim>\<open>(\d+\.?\d*)\s*{unit_pattern}\s*{keyword}\<close>\<close>

definition value_first_re :: "string \<Rightarrow> regex" where
  "value_first_re keyword =
     seqs [Group 1 number_re, Star Space, unit_re 2, Star Space, Lit keyword]"

text \<open>\<^verbatim>\<open>(\d+\.?\d*)\s*(mm|cm|m|in|inch|inches|ft|feet|foot|")?\<close>\<close>

definition all_numbers_re :: regex where
  "all_numbers_re = seqs [Group 1 number_re, Star Space, unit_re 2]"

text \<open>\<^verbatim>\<open>(\d+\.?\d*)\s*x\s*(\d+\.?\d*)\s*x\s*(\d+\.?\d*)\<close>\<close>

definition axbxc_re :: regex where
  "axbxc_re =
     seqs [Group 1 number_re, Star Space, Lit ''x'', Star Space, Group 2 number_re,
           Star Space, Lit ''x'', Star Space, Group 3 number_re]"

text \<open>\<^verbatim>\<open>(\d+\.?\d*)\s*x\s*(\d+\.?\d*)\<close>\<close>

definition axb_re :: regex where
  "axb_re = seqs [Group 1 number_re, Star Space, Lit ''x'', Star Space, Group 2 number_re]"

text \<open>\<^verbatim>\<open>(\d+)\s*point\<close>\<close>

definition points_re :: regex where
  "points_re = seqs [Group 1 (Plus Digit), Star Space, Lit ''point'']"

text \<open>\<open>float(match.group(n))\<close>: a group that did not take part is \<open>None\<close>, and
  \<open>float(None)\<close> raises \<open>TypeError\<close>.\<close>

definition float_group :: "'f float_ops \<Rightarrow> groups \<Rightarrow> nat \<Rightarrow> error + 'f" where
  "float_group ops m n = (case m n of None \<Rightarrow> Inl TypeError | Some t \<Rightarrow> py_float ops t)"

definition int_group :: "groups \<Rightarrow> nat \<Rightarrow> error + int" where
  "int_group m n = (case m n of None \<Rightarrow> Inl TypeError | Some t \<Rightarrow> py_int t)"

section \<open>Unit conversion\<close>

definition UNIT_TO_METERS :: "(string \<times> rat) list" where
  "UNIT_TO_METERS =
     [(''mm'', 1 / 1000), (''millimeter'', 1 / 1000), (''millimeters'', 1 / 1000),
      (''cm'', 1 / 100), (''centimeter'', 1 / 100), (''centimeters'', 1 / 100),
      (''m'', 1), (''meter'', 1), (''meters'', 1),
      (''in'', 254 / 10000), (''inch'', 254 / 10000), (''inches'', 254 / 10000),
      ([CHR 0x22], 254 / 10000),
      (''ft'', 3048 / 10000), (''foot'', 3048 / 10000), (''feet'', 3048 / 10000)]"

definition convert_to_meters :: "'f float_ops \<Rightarrow> 'f \<Rightarrow> string \<Rightarrow> 'f" where
  "convert_to_meters ops v unit =
     (let unit = rstrip_dot (str_strip (str_lower unit))
      in f_mul ops v
           (f_const ops (case map_of UNIT_TO_METERS unit of Some f \<Rightarrow> f | None \<Rightarrow> 1 / 1000)))"

section \<open>The prompt parser\<close>

definition detect_units :: "string \<Rightarrow> string" where
  "detect_units prompt =
     (let prompt_lower = str_lower prompt
      in if any_in [''inch'', ''inches'', [CHR 0x22], '' in ''] prompt_lower then ''in''
         else if str_in ''cm'' prompt_lower \<or> str_in ''centimeter'' prompt_lower then ''cm''
         else if str_in ''ft'' prompt_lower \<or> str_in ''feet'' prompt_lower then ''ft''
         else ''mm'')"

text \<open>Lines 77 to 79 of \<open>extract_dimension\<close>: the value of a match. The unit captured
  next to the number is used when there is one, the unit detected for the whole prompt
  otherwise.\<close>

definition match_value :: "'f float_ops \<Rightarrow> string \<Rightarrow> groups \<Rightarrow> error + 'f" where
  "match_value ops prompt m =
     bind_r (float_group ops m 1) (\<lambda>v.
       let unit = (case m 2 of None \<Rightarrow> detect_units prompt
                   | Some u \<Rightarrow> if u \<noteq> [] then u else detect_units prompt)
       in Inr (convert_to_meters ops v unit))"

fun extract_dimension :: "'f float_ops \<Rightarrow> string \<Rightarrow> string list \<Rightarrow> error + 'f option" where
  "extract_dimension ops prompt [] = Inr None"
| "extract_dimension ops prompt (keyword # keywords) =
     (case re_search (keyword_first_re keyword) (str_lower prompt) of
        Some m \<Rightarrow> bind_r (match_value ops prompt m) (\<lambda>v. Inr (Some v))
      | None \<Rightarrow>
          (case re_search (value_first_re keyword) (str_lower prompt) of
             Some m \<Rightarrow> bind_r (match_value ops prompt m) (\<lambda>v. Inr (Some v))
           | None \<Rightarrow> extract_dimension ops prompt keywords))"

text \<open>The loop of \<open>extract_all_numbers\<close> over the tuples of \<open>re.findall\<close>; a group that
  did not take part is the empty string there.\<close>

fun convert_all :: "'f float_ops \<Rightarrow> string \<Rightarrow> groups list \<Rightarrow> error + 'f list" where
  "convert_all ops default_unit [] = Inr []"
| "convert_all ops default_unit (m # ms) =
     bind_r (py_float ops (case m 1 of None \<Rightarrow> [] | Some t \<Rightarrow> t)) (\<lambda>v.
       let unit = (case m 2 of None \<Rightarrow> default_unit
                   | Some u \<Rightarrow> if u \<noteq> [] then u else default_unit)
       in bind_r (convert_all ops default_unit ms) (\<lambda>results.
            Inr (convert_to_meters ops v unit # results)))"

definition extract_all_numbers :: "'f float_ops \<Rightarrow> string \<Rightarrow> error + 'f list" where
  "extract_all_numbers ops prompt =
     convert_all ops (detect_units prompt) (re_findall all_numbers_re (str_lower prompt))"

subsection \<open>The parsed shape\<close>

text \<open>A value stored in the parameter dictionary: \<open>None\<close>, a float or an int.\<close>

datatype 'f pyval = PyNone | PyFloat 'f | PyInt int

fun val :: "'f option \<Rightarrow> 'f pyval" where
  "val None = PyNone"
| "val (Some x) = PyFloat x"

text \<open>The dictionary is kept as the list of its items in insertion order.\<close>

record 'f ParsedShape =
  shape_type :: string
  params :: "(string \<times> 'f pyval) list"
  units :: string
  is_2d :: bool

text \<open>\<open>x = numbers[i]\<close>, \<open>x = x or numbers[i]\<close> (the index is read only when \<open>x\<close> is
  false), and arithmetic on a variable, which raises \<open>TypeError\<close> on \<open>None\<close>.\<close>

definition get_nth :: "'f list \<Rightarrow> nat \<Rightarrow> error + 'f option" where
  "get_nth numbers i = bind_r (nth_r numbers i) (\<lambda>n. Inr (Some n))"

definition or_nth :: "'f float_ops \<Rightarrow> 'f option \<Rightarrow> 'f list \<Rightarrow> nat \<Rightarrow> error + 'f option" where
  "or_nth ops x numbers i = (if truthy ops x then Inr x else get_nth numbers i)"

definition py_div :: "'f float_ops \<Rightarrow> 'f option \<Rightarrow> rat \<Rightarrow> error + 'f option" where
  "py_div ops x d =
     (case x of None \<Rightarrow> Inl TypeError | Some v \<Rightarrow> Inr (Some (f_div ops v (f_const ops d))))"

definition py_mul :: "'f float_ops \<Rightarrow> 'f option \<Rightarrow> rat \<Rightarrow> error + 'f option" where
  "py_mul ops x d =
     (case x of None \<Rightarrow> Inl TypeError | Some v \<Rightarrow> Inr (Some (f_mul ops v (f_const ops d))))"

text \<open>Lines 244/245 and 108/109: \<open>if diameter and not radius: radius = diameter / 2\<close>.\<close>

definition radius_from_diameter ::
  "'f float_ops \<Rightarrow> 'f option \<Rightarrow> 'f option \<Rightarrow> error + 'f option" where
  "radius_from_diameter ops radius diameter =
     (if truthy ops diameter \<and> \<not> truthy ops radius then py_div ops diameter 2 else Inr radius)"

subsection \<open>The branches of \<open>parse_prompt\<close>\<close>

text \<open>Each branch of the \<open>if\<close>/\<open>elif\<close> chain is a definition of its own; the locals
  \<open>prompt_lower\<close>, \<open>units\<close> and \<open>is_2d\<close> of \<open>parse_prompt\<close> are passed where the branch
  reads them (the last two primed, the plain names being the fields of the record).\<close>

definition parse_cylinder ::
  "'f float_ops \<Rightarrow> string \<Rightarrow> string \<Rightarrow> error + 'f ParsedShape" where
  "parse_cylinder ops prompt units' =
     bind_r (extract_dimension ops prompt [''radius'', ''r'']) (\<lambda>radius.
     bind_r (extract_dimension ops prompt [''diameter'', ''dia'', ''d'']) (\<lambda>diameter.
     bind_r (extract_dimension ops prompt [''height'', ''tall'', ''long'', ''h'']) (\<lambda>height.
     bind_r (radius_from_diameter ops radius diameter) (\<lambda>radius.
     bind_r (if \<not> truthy ops radius \<or> \<not> truthy ops height then
               bind_r (extract_all_numbers ops prompt) (\<lambda>numbers.
                 if length numbers \<ge> 2 then
                   bind_r (or_nth ops radius numbers 0) (\<lambda>radius.
                   bind_r (or_nth ops height numbers 1) (\<lambda>height. Inr (radius, height)))
                 else Inr (radius, height))
             else Inr (radius, height)) (\<lambda>(radius, height).
     let radius = py_or ops radius (Some (f_const ops (1 / 100)));
         height = py_or ops height (Some (f_const ops (2 / 100)))
     in Inr \<lparr>shape_type = ''cylinder'',
             params = [(''radius'', val radius), (''height'', val height)],
             units = units', is_2d = False\<rparr>)))))"

definition parse_cube ::
  "'f float_ops \<Rightarrow> string \<Rightarrow> string \<Rightarrow> error + 'f ParsedShape" where
  "parse_cube ops prompt units' =
     bind_r (extract_dimension ops prompt [''side'', ''size'', ''length'']) (\<lambda>size.
     bind_r (if \<not> truthy ops size then
               bind_r (extract_all_numbers ops prompt) (\<lambda>numbers.
                 if numbers \<noteq> [] then get_nth numbers 0 else Inr (Some (f_const ops (2 / 100))))
             else Inr size) (\<lambda>size.
     Inr \<lparr>shape_type = ''cube'', params = [(''size'', val size)],
          units = units', is_2d = False\<rparr>))"

definition parse_box ::
  "'f float_ops \<Rightarrow> string \<Rightarrow> string \<Rightarrow> string \<Rightarrow> error + 'f ParsedShape" where
  "parse_box ops prompt prompt_lower units' =
     bind_r (extract_dimension ops prompt [''width'', ''wide'', ''w'']) (\<lambda>width.
     bind_r (extract_dimension ops prompt [''height'', ''tall'', ''h'']) (\<lambda>height.
     bind_r (extract_dimension ops prompt
               [''depth'', ''deep'', ''long'', ''length'', ''d'', ''l'']) (\<lambda>depth.
     bind_r (extract_all_numbers ops prompt) (\<lambda>numbers.
     bind_r (case re_search axbxc_re prompt_lower of
               Some axb_match \<Rightarrow>
                 let unit = detect_units prompt
                 in bind_r (float_group ops axb_match 1) (\<lambda>a.
                    bind_r (float_group ops axb_match 2) (\<lambda>b.
                    bind_r (float_group ops axb_match 3) (\<lambda>c.
                      Inr (Some (convert_to_meters ops a unit), Some (convert_to_meters ops b unit),
                           Some (convert_to_meters ops c unit)))))
             | None \<Rightarrow>
                 if length numbers \<ge> 3 then
                   bind_r (or_nth ops width numbers 0) (\<lambda>width.
                   bind_r (or_nth ops height numbers 1) (\<lambda>height.
                   bind_r (or_nth ops depth numbers 2) (\<lambda>depth. Inr (width, height, depth))))
                 else if length numbers = 1 then
                   bind_r (get_nth numbers 0) (\<lambda>n. Inr (n, n, n))
                 else Inr (width, height, depth)) (\<lambda>(width, height, depth).
     let width = py_or ops width (Some (f_const ops (2 / 100)));
         height = py_or ops height (Some (f_const ops (2 / 100)));
         depth = py_or ops depth (Some (f_const ops (2 / 100)))
     in Inr \<lparr>shape_type = ''box'',
             params = [(''width'', val width), (''height'', val height), (''depth'', val depth)],
             units = units', is_2d = False\<rparr>)))))"

text \<open>Hexagon, pentagon and octagon run the same code but for the name of the shape.\<close>

definition parse_polygon ::
  "'f float_ops \<Rightarrow> string \<Rightarrow> string \<Rightarrow> string \<Rightarrow> bool \<Rightarrow> error + 'f ParsedShape" where
  "parse_polygon ops kind prompt units' is_2d' =
     bind_r (extract_dimension ops prompt [''radius'', ''r'', ''size'']) (\<lambda>radius.
     bind_r (extract_dimension ops prompt [''height'', ''tall'', ''h'', ''thick'']) (\<lambda>height.
     bind_r (extract_all_numbers ops prompt) (\<lambda>numbers.
     bind_r (if \<not> truthy ops radius \<and> numbers \<noteq> [] then get_nth numbers 0
             else Inr radius) (\<lambda>radius.
     bind_r (if \<not> truthy ops height \<and> length numbers \<ge> 2 then get_nth numbers 1
             else Inr height) (\<lambda>height.
     let radius = py_or ops radius (Some (f_const ops (1 / 100)));
         height = py_or ops height (Some (f_const ops (1 / 100)))
     in Inr \<lparr>shape_type = kind,
             params = [(''radius'', val radius), (''height'', val height)],
             units = units', is_2d = is_2d'\<rparr>)))))"

definition parse_hexagon ::
  "'f float_ops \<Rightarrow> string \<Rightarrow> string \<Rightarrow> bool \<Rightarrow> error + 'f ParsedShape" where
  "parse_hexagon ops = parse_polygon ops ''hexagon''"

definition parse_triangle ::
  "'f float_ops \<Rightarrow> string \<Rightarrow> string \<Rightarrow> bool \<Rightarrow> error + 'f ParsedShape" where
  "parse_triangle ops prompt units' is_2d' =
     bind_r (extract_dimension ops prompt [''base'', ''width'', ''b'', ''w'']) (\<lambda>base.
     bind_r (extract_dimension ops prompt [''height'', ''tall'', ''h'']) (\<lambda>tri_height.
     bind_r (extract_dimension ops prompt [''depth'', ''thick'', ''extrude'', ''d'']) (\<lambda>depth.
     bind_r (extract_all_numbers ops prompt) (\<lambda>numbers.
     bind_r (if \<not> truthy ops base \<and> numbers \<noteq> [] then get_nth numbers 0
             else Inr base) (\<lambda>base.
     bind_r (if \<not> truthy ops tri_height \<and> length numbers \<ge> 2 then get_nth numbers 1
             else Inr tri_height) (\<lambda>tri_height.
     bind_r (if \<not> truthy ops depth \<and> length numbers \<ge> 3 then get_nth numbers 2
             else Inr depth) (\<lambda>depth.
     let base = py_or ops base (Some (f_const ops (2 / 100)));
         tri_height = py_or ops tri_height (Some (f_const ops (2 / 100)));
         depth = py_or ops depth (Some (f_const ops (1 / 100)))
     in Inr \<lparr>shape_type = ''triangle'',
             params = [(''base'', val base), (''tri_height'', val tri_height),
                       (''depth'', val depth)],
             units = units', is_2d = is_2d'\<rparr>)))))))"

definition parse_pentagon ::
  "'f float_ops \<Rightarrow> string \<Rightarrow> string \<Rightarrow> bool \<Rightarrow> error + 'f ParsedShape" where
  "parse_pentagon ops = parse_polygon ops ''pentagon''"

definition parse_octagon ::
  "'f float_ops \<Rightarrow> string \<Rightarrow> string \<Rightarrow> bool \<Rightarrow> error + 'f ParsedShape" where
  "parse_octagon ops = parse_polygon ops ''octagon''"

text \<open>Ellipse, slot and washer: three parameters, each looked up by keyword, then by
  position 0, 1, 2, then defaulted.\<close>

definition parse_three ::
  "'f float_ops \<Rightarrow> string \<Rightarrow> (string \<times> string list \<times> rat) \<Rightarrow> (string \<times> string list \<times> rat)
     \<Rightarrow> (string \<times> string list \<times> rat) \<Rightarrow> string \<Rightarrow> string \<Rightarrow> bool
     \<Rightarrow> error + 'f ParsedShape" where
  "parse_three ops kind pa pb pc prompt units' is_2d' =
     bind_r (extract_dimension ops prompt (fst (snd pa))) (\<lambda>a.
     bind_r (extract_dimension ops prompt (fst (snd pb))) (\<lambda>b.
     bind_r (extract_dimension ops prompt (fst (snd pc))) (\<lambda>c.
     bind_r (extract_all_numbers ops prompt) (\<lambda>numbers.
     bind_r (if \<not> truthy ops a \<and> numbers \<noteq> [] then get_nth numbers 0 else Inr a) (\<lambda>a.
     bind_r (if \<not> truthy ops b \<and> length numbers \<ge> 2 then get_nth numbers 1 else Inr b) (\<lambda>b.
     bind_r (if \<not> truthy ops c \<and> length numbers \<ge> 3 then get_nth numbers 2 else Inr c) (\<lambda>c.
     let a = py_or ops a (Some (f_const ops (snd (snd pa))));
         b = py_or ops b (Some (f_const ops (snd (snd pb))));
         c = py_or ops c (Some (f_const ops (snd (snd pc))))
     in Inr \<lparr>shape_type = kind,
             params = [(fst pa, val a), (fst pb, val b), (fst pc, val c)],
             units = units', is_2d = is_2d'\<rparr>)))))))"

definition parse_ellipse ::
  "'f float_ops \<Rightarrow> string \<Rightarrow> string \<Rightarrow> bool \<Rightarrow> error + 'f ParsedShape" where
  "parse_ellipse ops =
     parse_three ops ''ellipse''
       (''major'', [''major'', ''length'', ''long'', ''a''], 2 / 100)
       (''minor'', [''minor'', ''width'', ''short'', ''b''], 1 / 100)
       (''height'', [''height'', ''tall'', ''h'', ''thick''], 1 / 100)"

definition parse_circle ::
  "'f float_ops \<Rightarrow> string \<Rightarrow> string \<Rightarrow> error + 'f ParsedShape" where
  "parse_circle ops prompt units' =
     bind_r (extract_dimension ops prompt [''radius'', ''r'']) (\<lambda>radius.
     bind_r (extract_dimension ops prompt [''diameter'', ''dia'', ''d'']) (\<lambda>diameter.
     bind_r (extract_dimension ops prompt
               [''height'', ''tall'', ''h'', ''thick'', ''extrude'']) (\<lambda>height.
     bind_r (radius_from_diameter ops radius diameter) (\<lambda>radius.
     bind_r (if \<not> truthy ops radius then
               bind_r (extract_all_numbers ops prompt) (\<lambda>numbers.
                 if numbers \<noteq> [] then get_nth numbers 0 else Inr (Some (f_const ops (1 / 100))))
             else Inr radius) (\<lambda>radius.
     let radius = py_or ops radius (Some (f_const ops (1 / 100)))
     in if truthy ops height then
          Inr \<lparr>shape_type = ''cylinder'',
               params = [(''radius'', val radius), (''height'', val height)],
               units = units', is_2d = False\<rparr>
        else
          Inr \<lparr>shape_type = ''circle'', params = [(''radius'', val radius)],
               units = units', is_2d = True\<rparr>)))))"

definition parse_square ::
  "'f float_ops \<Rightarrow> string \<Rightarrow> string \<Rightarrow> error + 'f ParsedShape" where
  "parse_square ops prompt units' =
     bind_r (extract_dimension ops prompt [''side'', ''size'', ''length'', ''s'']) (\<lambda>size.
     bind_r (extract_dimension ops prompt
               [''height'', ''tall'', ''h'', ''thick'', ''extrude'']) (\<lambda>height.
     bind_r (extract_all_numbers ops prompt) (\<lambda>numbers.
     bind_r (if \<not> truthy ops size \<and> numbers \<noteq> [] then get_nth numbers 0
             else Inr size) (\<lambda>size.
     let size = py_or ops size (Some (f_const ops (2 / 100)))
     in if truthy ops height then
          Inr \<lparr>shape_type = ''cube'', params = [(''size'', val size)],
               units = units', is_2d = False\<rparr>
        else
          Inr \<lparr>shape_type = ''square'', params = [(''size'', val size)],
               units = units', is_2d = True\<rparr>))))"

definition parse_rectangle ::
  "'f float_ops \<Rightarrow> string \<Rightarrow> string \<Rightarrow> string \<Rightarrow> error + 'f ParsedShape" where
  "parse_rectangle ops prompt prompt_lower units' =
     bind_r (extract_dimension ops prompt [''width'', ''wide'', ''w'']) (\<lambda>width.
     bind_r (extract_dimension ops prompt
               [''length'', ''long'', ''l'', ''height'', ''h'']) (\<lambda>length'.
     bind_r (extract_dimension ops prompt [''depth'', ''thick'', ''extrude'', ''d'']) (\<lambda>depth.
     bind_r (extract_all_numbers ops prompt) (\<lambda>numbers.
     bind_r (case re_search axb_re prompt_lower of
               Some axb_match \<Rightarrow>
                 let unit = detect_units prompt
                 in bind_r (float_group ops axb_match 1) (\<lambda>a.
                    bind_r (float_group ops axb_match 2) (\<lambda>b.
                      Inr (Some (convert_to_meters ops a unit), Some (convert_to_meters ops b unit))))
             | None \<Rightarrow>
                 if length numbers \<ge> 2 then
                   bind_r (or_nth ops width numbers 0) (\<lambda>width.
                   bind_r (or_nth ops length' numbers 1) (\<lambda>length'. Inr (width, length')))
                 else Inr (width, length')) (\<lambda>(width, length').
     let width = py_or ops width (Some (f_const ops (2 / 100)));
         length' = py_or ops length' (Some (f_const ops (1 / 100)))
     in if truthy ops depth then
          Inr \<lparr>shape_type = ''box'',
               params = [(''width'', val width), (''height'', val depth),
                         (''depth'', val length')],
               units = units', is_2d = False\<rparr>
        else
          Inr \<lparr>shape_type = ''rectangle'',
               params = [(''width'', val width), (''length'', val length')],
               units = units', is_2d = True\<rparr>)))))"

definition parse_slot ::
  "'f float_ops \<Rightarrow> string \<Rightarrow> string \<Rightarrow> bool \<Rightarrow> error + 'f ParsedShape" where
  "parse_slot ops =
     parse_three ops ''slot''
       (''length'', [''length'', ''long'', ''l''], 3 / 100)
       (''width'', [''width'', ''wide'', ''w''], 1 / 100)
       (''height'', [''height'', ''tall'', ''h'', ''thick''], 5 / 1000)"

definition parse_washer ::
  "'f float_ops \<Rightarrow> string \<Rightarrow> string \<Rightarrow> bool \<Rightarrow> error + 'f ParsedShape" where
  "parse_washer ops =
     parse_three ops ''washer''
       (''outer'', [''outer'', ''outside'', ''od'', ''diameter''], 2 / 100)
       (''inner'', [''inner'', ''inside'', ''id'', ''hole''], 1 / 100)
       (''height'', [''height'', ''tall'', ''h'', ''thick''], 5 / 1000)"

definition parse_lshape ::
  "'f float_ops \<Rightarrow> string \<Rightarrow> string \<Rightarrow> bool \<Rightarrow> error + 'f ParsedShape" where
  "parse_lshape ops prompt units' is_2d' =
     bind_r (extract_dimension ops prompt [''width'', ''w'']) (\<lambda>width.
     bind_r (extract_dimension ops prompt [''length'', ''l'', ''height'', ''h'']) (\<lambda>length'.
     bind_r (extract_dimension ops prompt [''thick'', ''t'']) (\<lambda>thickness.
     bind_r (extract_dimension ops prompt [''depth'', ''d'', ''extrude'']) (\<lambda>depth.
     bind_r (extract_all_numbers ops prompt) (\<lambda>numbers.
     bind_r (if length numbers \<ge> 1 then or_nth ops width numbers 0 else Inr width) (\<lambda>width.
     bind_r (if length numbers \<ge> 2 then or_nth ops length' numbers 1
             else Inr length') (\<lambda>length'.
     bind_r (if length numbers \<ge> 3 then or_nth ops thickness numbers 2
             else Inr thickness) (\<lambda>thickness.
     bind_r (if length numbers \<ge> 4 then or_nth ops depth numbers 3 else Inr depth) (\<lambda>depth.
     let width = py_or ops width (Some (f_const ops (2 / 100)));
         length' = py_or ops length' (Some (f_const ops (2 / 100)));
         thickness = py_or ops thickness (Some (f_const ops (3 / 1000)));
         depth = py_or ops depth (Some (f_const ops (1 / 100)))
     in Inr \<lparr>shape_type = ''lshape'',
             params = [(''width'', val width), (''length'', val length'),
                       (''thickness'', val thickness), (''depth'', val depth)],
             units = units', is_2d = is_2d'\<rparr>)))))))))"

definition parse_cross ::
  "'f float_ops \<Rightarrow> string \<Rightarrow> string \<Rightarrow> bool \<Rightarrow> error + 'f ParsedShape" where
  "parse_cross ops prompt units' is_2d' =
     bind_r (extract_dimension ops prompt [''size'', ''s'', ''width'', ''w'']) (\<lambda>size.
     bind_r (extract_dimension ops prompt [''thick'', ''t'', ''arm'']) (\<lambda>thickness.
     bind_r (extract_dimension ops prompt [''depth'', ''d'', ''height'', ''h'']) (\<lambda>depth.
     bind_r (extract_all_numbers ops prompt) (\<lambda>numbers.
     bind_r (if length numbers \<ge> 1 then or_nth ops size numbers 0 else Inr size) (\<lambda>size.
     bind_r (if length numbers \<ge> 2 then or_nth ops thickness numbers 1
             else Inr thickness) (\<lambda>thickness.
     bind_r (if length numbers \<ge> 3 then or_nth ops depth numbers 2 else Inr depth) (\<lambda>depth.
     let size = py_or ops size (Some (f_const ops (2 / 100)));
         thickness = py_or ops thickness (Some (f_const ops (5 / 1000)));
         depth = py_or ops depth (Some (f_const ops (5 / 1000)))
     in Inr \<lparr>shape_type = ''cross'',
             params = [(''size'', val size), (''thickness'', val thickness),
                       (''depth'', val depth)],
             units = units', is_2d = is_2d'\<rparr>)))))))"

definition parse_star ::
  "'f float_ops \<Rightarrow> string \<Rightarrow> string \<Rightarrow> string \<Rightarrow> bool \<Rightarrow> error + 'f ParsedShape" where
  "parse_star ops prompt prompt_lower units' is_2d' =
     bind_r (extract_dimension ops prompt [''outer'', ''radius'', ''r'', ''size'']) (\<lambda>outer.
     bind_r (extract_dimension ops prompt [''inner'']) (\<lambda>inner.
     bind_r (extract_dimension ops prompt [''height'', ''h'', ''thick'', ''depth'']) (\<lambda>height.
     bind_r (extract_all_numbers ops prompt) (\<lambda>numbers.
     bind_r (case re_search points_re prompt_lower of
               Some points_match \<Rightarrow> int_group points_match 1
             | None \<Rightarrow> Inr 5) (\<lambda>points.
     bind_r (if \<not> truthy ops outer \<and> numbers \<noteq> [] then get_nth numbers 0
             else Inr outer) (\<lambda>outer.
     bind_r (if \<not> truthy ops height \<and> length numbers \<ge> 2 then get_nth numbers 1
             else Inr height) (\<lambda>height.
     let outer = py_or ops outer (Some (f_const ops (2 / 100)))
     in bind_r (if truthy ops inner then Inr inner else py_mul ops outer (4 / 10)) (\<lambda>inner.
     let height = py_or ops height (Some (f_const ops (5 / 1000)))
     in Inr \<lparr>shape_type = ''star'',
             params = [(''outer'', val outer), (''inner'', val inner),
                       (''points'', PyInt points), (''height'', val height)],
             units = units', is_2d = is_2d'\<rparr>))))))))"

subsection \<open>\<open>parse_prompt\<close>\<close>

definition returns :: "error + 'f ParsedShape \<Rightarrow> error + 'f ParsedShape option" where
  "returns m = bind_r m (\<lambda>shape. Inr (Some shape))"

definition parse_prompt ::
  "'f float_ops \<Rightarrow> string \<Rightarrow> error + 'f ParsedShape option" where
  "parse_prompt ops prompt =
     (let prompt_lower = str_strip (str_lower prompt);
          units' = detect_units prompt;
          is_2d' = any_in [''2d'', ''sketch'', ''draw'', ''flat''] prompt_lower
      in if any_in [''cylinder'', ''cylindrical'', ''tube'', ''pipe''] prompt_lower
           then returns (parse_cylinder ops prompt units')
         else if str_in ''cube'' prompt_lower
           then returns (parse_cube ops prompt units')
         else if any_in [''box'', ''rectangular'', ''prism'', ''block''] prompt_lower
           then returns (parse_box ops prompt prompt_lower units')
         else if str_in ''hexagon'' prompt_lower \<or> str_in ''hex'' prompt_lower
           then returns (parse_hexagon ops prompt units' is_2d')
         else if str_in ''triangle'' prompt_lower
           then returns (parse_triangle ops prompt units' is_2d')
         else if str_in ''pentagon'' prompt_lower
           then returns (parse_pentagon ops prompt units' is_2d')
         else if str_in ''octagon'' prompt_lower
           then returns (parse_octagon ops prompt units' is_2d')
         else if any_in [''ellipse'', ''oval''] prompt_lower
           then returns (parse_ellipse ops prompt units' is_2d')
         else if str_in ''circle'' prompt_lower
           then returns (parse_circle ops prompt units')
         else if str_in ''square'' prompt_lower
           then returns (parse_square ops prompt units')
         else if str_in ''rectangle'' prompt_lower \<or> str_in ''rect'' prompt_lower
           then returns (parse_rectangle ops prompt prompt_lower units')
         else if str_in ''slot'' prompt_lower
           then returns (parse_slot ops prompt units' is_2d')
         else if any_in [''washer'', ''ring'', ''donut'', ''annulus''] prompt_lower
           then returns (parse_washer ops prompt units' is_2d')
         else if any_in [''l-shape'', ''lshape'', ''l shape''] prompt_lower
           then returns (parse_lshape ops prompt units' is_2d')
         else if any_in [''cross'', ''plus''] prompt_lower
           then returns (parse_cross ops prompt units' is_2d')
         else if str_in ''star'' prompt_lower
           then returns (parse_star ops prompt prompt_lower units' is_2d')
         else Inr None)"

section \<open>Notions used in the statements\<close>

subsection \<open>Patterns and what they capture\<close>

text \<open>The numbers of the capture groups that occur in a pattern.\<close>

primrec groups_of :: "regex \<Rightarrow> nat set" where
  "groups_of (Lit w) = {}"
| "groups_of Digit = {}"
| "groups_of Space = {}"
| "groups_of (Seq a b) = groups_of a \<union> groups_of b"
| "groups_of (Alt a b) = groups_of a \<union> groups_of b"
| "groups_of (Opt a) = groups_of a"
| "groups_of (Star a) = groups_of a"
| "groups_of (Group n a) = insert n (groups_of a)"

text \<open>\<open>sets_by n inner r\<close>: every match of \<open>r\<close> goes through the group numbered \<open>n\<close>, that group
  encloses the pattern \<open>inner\<close>, and nothing matched after it writes group \<open>n\<close> again.\<close>

primrec sets_by :: "nat \<Rightarrow> regex \<Rightarrow> regex \<Rightarrow> bool" where
  "sets_by n inner (Lit w) = False"
| "sets_by n inner Digit = False"
| "sets_by n inner Space = False"
| "sets_by n inner (Seq a b) = ((sets_by n inner a \<and> n \<notin> groups_of b) \<or> sets_by n inner b)"
| "sets_by n inner (Alt a b) = (sets_by n inner a \<and> sets_by n inner b)"
| "sets_by n inner (Opt a) = False"
| "sets_by n inner (Star a) = False"
| "sets_by n inner (Group m a) = (if m = n then a = inner else sets_by n inner a)"

text \<open>A text that some match of \<open>inner\<close> consumes.\<close>

definition captured :: "regex \<Rightarrow> string \<Rightarrow> bool" where
  "captured inner t = (\<exists>s g y. y \<in> set (rmatch inner s g) \<and> t = take (length s - length (fst y)) s)"

text \<open>The shape of the texts that \<^verbatim>\<open>\d+\.?\d*\<close> consumes.\<close>

definition float_lit :: "string \<Rightarrow> bool" where
  "float_lit t = (\<exists>ip fp. ip \<noteq> [] \<and> list_all isdigit ip \<and> list_all isdigit fp \<and>
                    (t = ip @ fp \<or> t = ip @ CHR ''.'' # fp))"

subsection \<open>What the two extractors return\<close>

text \<open>\<open>extract_dimension\<close> and \<open>extract_all_numbers\<close> never raise (lemmas
  \<open>extract_dimension_eq\<close> and \<open>extract_all_numbers_eq\<close> below); these are the values they return.\<close>

definition keyword_value :: "'f float_ops \<Rightarrow> string \<Rightarrow> string list \<Rightarrow> 'f option" where
  "keyword_value ops p kws = (case extract_dimension ops p kws of Inr v \<Rightarrow> v | Inl e \<Rightarrow> None)"

definition numbers_of :: "'f float_ops \<Rightarrow> string \<Rightarrow> 'f list" where
  "numbers_of ops p = (case extract_all_numbers ops p of Inr v \<Rightarrow> v | Inl e \<Rightarrow> [])"

subsection \<open>Keyword, then position, then default\<close>

text \<open>The number at position \<open>pos\<close> of the sequence when there is one and it is true
  (not \<open>0.0\<close>), else the default.\<close>

definition positional :: "'f float_ops \<Rightarrow> 'f list \<Rightarrow> nat \<Rightarrow> 'f \<Rightarrow> 'f" where
  "positional ops numbers pos dflt =
     (if pos < length numbers \<and> f_true ops (numbers ! pos) then numbers ! pos else dflt)"

text \<open>The value of a parameter by the three-stage rule of the specification: the keyword
  value when it is true, else the positional number, else the default.\<close>

definition filled :: "'f float_ops \<Rightarrow> 'f option \<Rightarrow> 'f list \<Rightarrow> nat \<Rightarrow> 'f \<Rightarrow> 'f" where
  "filled ops kw numbers pos dflt =
     (case kw of None \<Rightarrow> positional ops numbers pos dflt
      | Some v \<Rightarrow> if f_true ops v then v else positional ops numbers pos dflt)"

text \<open>The conditional assignment \<open>if not a and i < len(ns): a = ns[i]\<close>.\<close>

definition pick :: "'f float_ops \<Rightarrow> 'f option \<Rightarrow> 'f list \<Rightarrow> nat \<Rightarrow> 'f option" where
  "pick ops a ns i = (if \<not> truthy ops a \<and> i < length ns then Some (ns ! i) else a)"

text \<open>The radius read by keyword: the radius keywords, or half of the diameter keywords
  when only these give a true value.\<close>

definition radius_or_half :: "'f float_ops \<Rightarrow> 'f option \<Rightarrow> 'f option \<Rightarrow> 'f option" where
  "radius_or_half ops radius diameter =
     (if truthy ops diameter \<and> \<not> truthy ops radius
      then map_option (\<lambda>d. f_div ops d (f_const ops 2)) diameter else radius)"

text \<open>The sequence of numbers when it has at least \<open>n\<close> entries, the empty sequence
  otherwise: the guards \<open>len(numbers) >= 2\<close> of the cylinder and rectangle branches.\<close>

definition enough :: "nat \<Rightarrow> 'f list \<Rightarrow> 'f list" where
  "enough n numbers = (if n \<le> length numbers then numbers else [])"

text \<open>The cube branch: the first number when there is one, whatever its value.\<close>

definition head_or :: "'f list \<Rightarrow> 'f \<Rightarrow> 'f" where
  "head_or numbers dflt = (case numbers of [] \<Rightarrow> dflt | n # rest \<Rightarrow> n)"

definition keyword_or_head :: "'f float_ops \<Rightarrow> 'f option \<Rightarrow> 'f list \<Rightarrow> 'f \<Rightarrow> 'f" where
  "keyword_or_head ops kw numbers dflt =
     (case kw of None \<Rightarrow> head_or numbers dflt
      | Some v \<Rightarrow> if f_true ops v then v else head_or numbers dflt)"

text \<open>\<open>float(match.group(n))\<close> for a group that captured a number.\<close>

definition group_value :: "'f float_ops \<Rightarrow> groups \<Rightarrow> nat \<Rightarrow> 'f" where
  "group_value ops m n =
     (case float_group ops m n of Inr v \<Rightarrow> v | Inl e \<Rightarrow> f_const ops 0)"

text \<open>Width, height and depth of the box branch: the three numbers of an \<open>NxNxN\<close>
  pattern when the prompt has one; else keyword then position when the prompt has at least
  three numbers; else the single number for all three when it has exactly one; else
  keyword then default.\<close>

definition box_values :: "'f float_ops \<Rightarrow> string \<Rightarrow> string \<Rightarrow> 'f \<times> 'f \<times> 'f" where
  "box_values ops p prompt_lower =
     (let width = keyword_value ops p [''width'', ''wide'', ''w''];
          height = keyword_value ops p [''height'', ''tall'', ''h''];
          depth = keyword_value ops p [''depth'', ''deep'', ''long'', ''length'', ''d'', ''l''];
          numbers = numbers_of ops p;
          unit = detect_units p
      in case re_search axbxc_re prompt_lower of
           Some m \<Rightarrow>
             (filled ops (Some (convert_to_meters ops (group_value ops m 1) unit)) [] 0 (f_const ops (2 / 100)),
              filled ops (Some (convert_to_meters ops (group_value ops m 2) unit)) [] 1 (f_const ops (2 / 100)),
              filled ops (Some (convert_to_meters ops (group_value ops m 3) unit)) [] 2 (f_const ops (2 / 100)))
         | None \<Rightarrow>
             if 3 \<le> length numbers then
               (filled ops width numbers 0 (f_const ops (2 / 100)), filled ops height numbers 1 (f_const ops (2 / 100)),
                filled ops depth numbers 2 (f_const ops (2 / 100)))
             else if length numbers = 1 then
               (filled ops None numbers 0 (f_const ops (2 / 100)), filled ops None numbers 0 (f_const ops (2 / 100)),
                filled ops None numbers 0 (f_const ops (2 / 100)))
             else
               (filled ops width [] 0 (f_const ops (2 / 100)), filled ops height [] 1 (f_const ops (2 / 100)),
                filled ops depth [] 2 (f_const ops (2 / 100))))"

text \<open>Width and length of the rectangle branch: the two numbers of an \<open>NxN\<close> pattern
  when the prompt has one; else keyword, then position when the prompt has at least two
  numbers, then default.\<close>

definition rectangle_values :: "'f float_ops \<Rightarrow> string \<Rightarrow> string \<Rightarrow> 'f \<times> 'f" where
  "rectangle_values ops p prompt_lower =
     (let width = keyword_value ops p [''width'', ''wide'', ''w''];
          length' = keyword_value ops p [''length'', ''long'', ''l'', ''height'', ''h''];
          numbers = numbers_of ops p;
          unit = detect_units p
      in case re_search axb_re prompt_lower of
           Some m \<Rightarrow>
             (filled ops (Some (convert_to_meters ops (group_value ops m 1) unit)) [] 0 (f_const ops (2 / 100)),
              filled ops (Some (convert_to_meters ops (group_value ops m 2) unit)) [] 1 (f_const ops (1 / 100)))
         | None \<Rightarrow>
             (filled ops width (enough 2 numbers) 0 (f_const ops (2 / 100)),
              filled ops length' (enough 2 numbers) 1 (f_const ops (1 / 100))))"

text \<open>The star branch converts the digits before \<open>point\<close> with \<open>int\<close>;
  \<open>star_overflow\<close> says that there are more of them than \<open>int\<close> accepts.\<close>

definition star_overflow :: "string \<Rightarrow> bool" where
  "star_overflow prompt_lower =
     (case re_search points_re prompt_lower of
        None \<Rightarrow> False
      | Some m \<Rightarrow> (case m 1 of None \<Rightarrow> False | Some t \<Rightarrow> length t > int_max_str_digits))"

definition points_value :: "string \<Rightarrow> int" where
  "points_value prompt_lower =
     (case re_search points_re prompt_lower of
        None \<Rightarrow> 5
      | Some m \<Rightarrow> (case m 1 of None \<Rightarrow> 5 | Some t \<Rightarrow> int (nat_of_digits t)))"

text \<open>\<open>inner or outer * 0.4\<close>.\<close>

definition inner_or :: "'f float_ops \<Rightarrow> 'f option \<Rightarrow> 'f \<Rightarrow> 'f" where
  "inner_or ops inner outer =
     (case inner of None \<Rightarrow> f_mul ops outer (f_const ops (4 / 10))
      | Some v \<Rightarrow> if f_true ops v then v else f_mul ops outer (f_const ops (4 / 10)))"

subsection \<open>The priority table\<close>

text \<open>The rows of the table of the specification, in its order, each with its trigger
  keywords; \<open>classify\<close> is the first row one of whose keywords occurs in the stripped,
  lowercased prompt.\<close>

datatype rule =
    R_cylinder | R_cube | R_box | R_hexagon | R_triangle | R_pentagon | R_octagon | R_ellipse
  | R_circle | R_square | R_rectangle | R_slot | R_washer | R_l_shape | R_cross | R_star

definition priority_table :: "(rule \<times> string list) list" where
  "priority_table =
     [(R_cylinder, [''cylinder'', ''cylindrical'', ''tube'', ''pipe'']),
      (R_cube, [''cube'']),
      (R_box, [''box'', ''rectangular'', ''prism'', ''block'']),
      (R_hexagon, [''hexagon'', ''hex'']),
      (R_triangle, [''triangle'']),
      (R_pentagon, [''pentagon'']),
      (R_octagon, [''octagon'']),
      (R_ellipse, [''ellipse'', ''oval'']),
      (R_circle, [''circle'']),
      (R_square, [''square'']),
      (R_rectangle, [''rectangle'', ''rect'']),
      (R_slot, [''slot'']),
      (R_washer, [''washer'', ''ring'', ''donut'', ''annulus'']),
      (R_l_shape, [''l-shape'', ''lshape'', ''l shape'']),
      (R_cross, [''cross'', ''plus'']),
      (R_star, [''star''])]"

definition prompt_lower_of :: "string \<Rightarrow> string" where
  "prompt_lower_of p = str_strip (str_lower p)"

definition classify :: "string \<Rightarrow> rule option" where
  "classify p =
     map_option fst (find (\<lambda>row. any_in (snd row) (prompt_lower_of p)) priority_table)"

text \<open>The local \<open>is_2d\<close> of \<open>parse_prompt\<close>.\<close>

definition asks_2d :: "string \<Rightarrow> bool" where
  "asks_2d p = any_in [''2d'', ''sketch'', ''draw'', ''flat''] (prompt_lower_of p)"

text \<open>The code that \<open>parse_prompt\<close> runs under the \<open>if\<close> or \<open>elif\<close> of a row.\<close>

primrec branch :: "'f float_ops \<Rightarrow> rule \<Rightarrow> string \<Rightarrow> error + 'f ParsedShape" where
  "branch ops R_cylinder p = parse_cylinder ops p (detect_units p)"
| "branch ops R_cube p = parse_cube ops p (detect_units p)"
| "branch ops R_box p = parse_box ops p (prompt_lower_of p) (detect_units p)"
| "branch ops R_hexagon p = parse_hexagon ops p (detect_units p) (asks_2d p)"
| "branch ops R_triangle p = parse_triangle ops p (detect_units p) (asks_2d p)"
| "branch ops R_pentagon p = parse_pentagon ops p (detect_units p) (asks_2d p)"
| "branch ops R_octagon p = parse_octagon ops p (detect_units p) (asks_2d p)"
| "branch ops R_ellipse p = parse_ellipse ops p (detect_units p) (asks_2d p)"
| "branch ops R_circle p = parse_circle ops p (detect_units p)"
| "branch ops R_square p = parse_square ops p (detect_units p)"
| "branch ops R_rectangle p = parse_rectangle ops p (prompt_lower_of p) (detect_units p)"
| "branch ops R_slot p = parse_slot ops p (detect_units p) (asks_2d p)"
| "branch ops R_washer p = parse_washer ops p (detect_units p) (asks_2d p)"
| "branch ops R_l_shape p = parse_lshape ops p (detect_units p) (asks_2d p)"
| "branch ops R_cross p = parse_cross ops p (detect_units p) (asks_2d p)"
| "branch ops R_star p = parse_star ops p (prompt_lower_of p) (detect_units p) (asks_2d p)"

subsection \<open>The result in closed form\<close>

text \<open>The keyword value that turns a circle, a square or a rectangle into a solid.\<close>

definition extrusion :: "'f float_ops \<Rightarrow> rule \<Rightarrow> string \<Rightarrow> 'f option" where
  "extrusion ops r p =
     (if r = R_circle \<or> r = R_square
        then keyword_value ops p [''height'', ''tall'', ''h'', ''thick'', ''extrude'']
      else if r = R_rectangle then keyword_value ops p [''depth'', ''thick'', ''extrude'', ''d'']
      else None)"

text \<open>The \<open>shape_type\<close> a row returns.\<close>

primrec expected_kind :: "'f float_ops \<Rightarrow> rule \<Rightarrow> string \<Rightarrow> string" where
  "expected_kind ops R_cylinder p = ''cylinder''"
| "expected_kind ops R_cube p = ''cube''"
| "expected_kind ops R_box p = ''box''"
| "expected_kind ops R_hexagon p = ''hexagon''"
| "expected_kind ops R_triangle p = ''triangle''"
| "expected_kind ops R_pentagon p = ''pentagon''"
| "expected_kind ops R_octagon p = ''octagon''"
| "expected_kind ops R_ellipse p = ''ellipse''"
| "expected_kind ops R_circle p = (if truthy ops (extrusion ops R_circle p) then ''cylinder'' else ''circle'')"
| "expected_kind ops R_square p = (if truthy ops (extrusion ops R_square p) then ''cube'' else ''square'')"
| "expected_kind ops R_rectangle p =
     (if truthy ops (extrusion ops R_rectangle p) then ''box'' else ''rectangle'')"
| "expected_kind ops R_slot p = ''slot''"
| "expected_kind ops R_washer p = ''washer''"
| "expected_kind ops R_l_shape p = ''lshape''"
| "expected_kind ops R_cross p = ''cross''"
| "expected_kind ops R_star p = ''star''"

text \<open>The \<open>is_2d\<close> a row returns.\<close>

definition expected_2d :: "'f float_ops \<Rightarrow> rule \<Rightarrow> string \<Rightarrow> bool" where
  "expected_2d ops r p =
     (if r = R_cylinder \<or> r = R_cube \<or> r = R_box then False
      else if r = R_circle \<or> r = R_square \<or> r = R_rectangle then \<not> truthy ops (extrusion ops r p)
      else asks_2d p)"

text \<open>One entry of the dictionary, filled by keyword, position and default.\<close>

definition param ::
  "'f float_ops \<Rightarrow> string \<Rightarrow> string \<Rightarrow> string list \<Rightarrow> 'f list \<Rightarrow> nat \<Rightarrow> rat
     \<Rightarrow> string \<times> 'f pyval" where
  "param ops p name keywords numbers pos dflt =
     (name, PyFloat (filled ops (keyword_value ops p keywords) numbers pos (f_const ops dflt)))"

text \<open>The dictionary a row returns.\<close>

primrec expected_params :: "'f float_ops \<Rightarrow> rule \<Rightarrow> string \<Rightarrow> (string \<times> 'f pyval) list" where
  "expected_params ops R_cylinder p =
     [(''radius'', PyFloat (filled ops (radius_or_half ops (keyword_value ops p [''radius'', ''r''])
                                      (keyword_value ops p [''diameter'', ''dia'', ''d'']))
                                   (enough 2 (numbers_of ops p)) 0 (f_const ops (1 / 100)))),
      param ops p ''height'' [''height'', ''tall'', ''long'', ''h''] (enough 2 (numbers_of ops p)) 1 (2 / 100)]"
| "expected_params ops R_cube p =
     [(''size'', PyFloat (keyword_or_head ops (keyword_value ops p [''side'', ''size'', ''length''])
                            (numbers_of ops p) (f_const ops (2 / 100))))]"
| "expected_params ops R_box p =
     (case box_values ops p (prompt_lower_of p) of (w, h, d) \<Rightarrow>
        [(''width'', PyFloat w), (''height'', PyFloat h), (''depth'', PyFloat d)])"
| "expected_params ops R_hexagon p =
     [param ops p ''radius'' [''radius'', ''r'', ''size''] (numbers_of ops p) 0 (1 / 100),
      param ops p ''height'' [''height'', ''tall'', ''h'', ''thick''] (numbers_of ops p) 1 (1 / 100)]"
| "expected_params ops R_triangle p =
     [param ops p ''base'' [''base'', ''width'', ''b'', ''w''] (numbers_of ops p) 0 (2 / 100),
      param ops p ''tri_height'' [''height'', ''tall'', ''h''] (numbers_of ops p) 1 (2 / 100),
      param ops p ''depth'' [''depth'', ''thick'', ''extrude'', ''d''] (numbers_of ops p) 2 (1 / 100)]"
| "expected_params ops R_pentagon p =
     [param ops p ''radius'' [''radius'', ''r'', ''size''] (numbers_of ops p) 0 (1 / 100),
      param ops p ''height'' [''height'', ''tall'', ''h'', ''thick''] (numbers_of ops p) 1 (1 / 100)]"
| "expected_params ops R_octagon p =
     [param ops p ''radius'' [''radius'', ''r'', ''size''] (numbers_of ops p) 0 (1 / 100),
      param ops p ''height'' [''height'', ''tall'', ''h'', ''thick''] (numbers_of ops p) 1 (1 / 100)]"
| "expected_params ops R_ellipse p =
     [param ops p ''major'' [''major'', ''length'', ''long'', ''a''] (numbers_of ops p) 0 (2 / 100),
      param ops p ''minor'' [''minor'', ''width'', ''short'', ''b''] (numbers_of ops p) 1 (1 / 100),
      param ops p ''height'' [''height'', ''tall'', ''h'', ''thick''] (numbers_of ops p) 2 (1 / 100)]"
| "expected_params ops R_circle p =
     (''radius'', PyFloat (filled ops (radius_or_half ops (keyword_value ops p [''radius'', ''r''])
                                     (keyword_value ops p [''diameter'', ''dia'', ''d'']))
                                  (numbers_of ops p) 0 (f_const ops (1 / 100))))
     # (if truthy ops (extrusion ops R_circle p) then [(''height'', val (extrusion ops R_circle p))] else [])"
| "expected_params ops R_square p =
     [param ops p ''size'' [''side'', ''size'', ''length'', ''s''] (numbers_of ops p) 0 (2 / 100)]"
| "expected_params ops R_rectangle p =
     (case rectangle_values ops p (prompt_lower_of p) of (w, l) \<Rightarrow>
        if truthy ops (extrusion ops R_rectangle p)
        then [(''width'', PyFloat w), (''height'', val (extrusion ops R_rectangle p)),
              (''depth'', PyFloat l)]
        else [(''width'', PyFloat w), (''length'', PyFloat l)])"
| "expected_params ops R_slot p =
     [param ops p ''length'' [''length'', ''long'', ''l''] (numbers_of ops p) 0 (3 / 100),
      param ops p ''width'' [''width'', ''wide'', ''w''] (numbers_of ops p) 1 (1 / 100),
      param ops p ''height'' [''height'', ''tall'', ''h'', ''thick''] (numbers_of ops p) 2 (5 / 1000)]"
| "expected_params ops R_washer p =
     [param ops p ''outer'' [''outer'', ''outside'', ''od'', ''diameter''] (numbers_of ops p) 0 (2 / 100),
      param ops p ''inner'' [''inner'', ''inside'', ''id'', ''hole''] (numbers_of ops p) 1 (1 / 100),
      param ops p ''height'' [''height'', ''tall'', ''h'', ''thick''] (numbers_of ops p) 2 (5 / 1000)]"
| "expected_params ops R_l_shape p =
     [param ops p ''width'' [''width'', ''w''] (numbers_of ops p) 0 (2 / 100),
      param ops p ''length'' [''length'', ''l'', ''height'', ''h''] (numbers_of ops p) 1 (2 / 100),
      param ops p ''thickness'' [''thick'', ''t''] (numbers_of ops p) 2 (3 / 1000),
      param ops p ''depth'' [''depth'', ''d'', ''extrude''] (numbers_of ops p) 3 (1 / 100)]"
| "expected_params ops R_cross p =
     [param ops p ''size'' [''size'', ''s'', ''width'', ''w''] (numbers_of ops p) 0 (2 / 100),
      param ops p ''thickness'' [''thick'', ''t'', ''arm''] (numbers_of ops p) 1 (5 / 1000),
      param ops p ''depth'' [''depth'', ''d'', ''height'', ''h''] (numbers_of ops p) 2 (5 / 1000)]"
| "expected_params ops R_star p =
     [param ops p ''outer'' [''outer'', ''radius'', ''r'', ''size''] (numbers_of ops p) 0 (2 / 100),
      (''inner'', PyFloat (inner_or ops (keyword_value ops p [''inner''])
                             (filled ops (keyword_value ops p [''outer'', ''radius'', ''r'', ''size''])
                                (numbers_of ops p) 0 (f_const ops (2 / 100))))),
      (''points'', PyInt (points_value (prompt_lower_of p))),
      param ops p ''height'' [''height'', ''h'', ''thick'', ''depth''] (numbers_of ops p) 1 (5 / 1000)]"

text \<open>The prompts on which \<open>parse_prompt\<close> raises: the star row, with more digits
  before \<open>point\<close> than \<open>int\<close> accepts.\<close>

definition raises_on :: "string \<Rightarrow> bool" where
  "raises_on p = (classify p = Some R_star \<and> star_overflow (prompt_lower_of p))"

text \<open>The prompt made of \<open>n\<close> digits \<open>1\<close> followed by \<open>point star\<close>.\<close>

definition digits_point_star :: "nat \<Rightarrow> string" where
  "digits_point_star n = replicate n CHR ''1'' @ '' point star''"

subsection \<open>Tables of the specification\<close>

text \<open>Every trigger keyword of the table.\<close>

definition all_triggers :: "string list" where
  "all_triggers = concat (map snd priority_table)"

text \<open>The required parameter keys of each shape kind, under the name the code gives the
  kind (\<open>lshape\<close> for the L-shape).\<close>

definition required_table :: "(string \<times> string list) list" where
  "required_table =
     [(''cylinder'', [''radius'', ''height'']),
      (''cube'', [''size'']),
      (''box'', [''width'', ''height'', ''depth'']),
      (''hexagon'', [''radius'', ''height'']),
      (''triangle'', [''base'', ''tri_height'', ''depth'']),
      (''pentagon'', [''radius'', ''height'']),
      (''octagon'', [''radius'', ''height'']),
      (''ellipse'', [''major'', ''minor'', ''height'']),
      (''circle'', [''radius'']),
      (''square'', [''size'']),
      (''rectangle'', [''width'', ''length'']),
      (''slot'', [''length'', ''width'', ''height'']),
      (''washer'', [''outer'', ''inner'', ''height'']),
      (''lshape'', [''width'', ''length'', ''thickness'', ''depth'']),
      (''cross'', [''size'', ''thickness'', ''depth'']),
      (''star'', [''outer'', ''inner'', ''points'', ''height''])]"

definition required_keys :: "string \<Rightarrow> string list" where
  "required_keys kind = (case map_of required_table kind of Some ks \<Rightarrow> ks | None \<Rightarrow> [])"

text \<open>The dictionary of the shape that \<open>parse_prompt\<close> returns, if it returns one.\<close>

definition parsed_params :: "'f float_ops \<Rightarrow> string \<Rightarrow> (string \<times> 'f pyval) list option" where
  "parsed_params ops p =
     (case parse_prompt ops p of Inr (Some shape) \<Rightarrow> Some (params shape) | _ \<Rightarrow> None)"

text \<open>The literal defaults of each row; the inner radius of the star is the product
  \<open>outer * 0.4\<close> of two of them.\<close>

primrec default_params :: "'f float_ops \<Rightarrow> rule \<Rightarrow> (string \<times> 'f pyval) list" where
  "default_params ops R_cylinder =
     [(''radius'', PyFloat (f_const ops (1 / 100))), (''height'', PyFloat (f_const ops (2 / 100)))]"
| "default_params ops R_cube = [(''size'', PyFloat (f_const ops (2 / 100)))]"
| "default_params ops R_box =
     [(''width'', PyFloat (f_const ops (2 / 100))), (''height'', PyFloat (f_const ops (2 / 100))),
      (''depth'', PyFloat (f_const ops (2 / 100)))]"
| "default_params ops R_hexagon =
     [(''radius'', PyFloat (f_const ops (1 / 100))), (''height'', PyFloat (f_const ops (1 / 100)))]"
| "default_params ops R_triangle =
     [(''base'', PyFloat (f_const ops (2 / 100))), (''tri_height'', PyFloat (f_const ops (2 / 100))),
      (''depth'', PyFloat (f_const ops (1 / 100)))]"
| "default_params ops R_pentagon =
     [(''radius'', PyFloat (f_const ops (1 / 100))), (''height'', PyFloat (f_const ops (1 / 100)))]"
| "default_params ops R_octagon =
     [(''radius'', PyFloat (f_const ops (1 / 100))), (''height'', PyFloat (f_const ops (1 / 100)))]"
| "default_params ops R_ellipse =
     [(''major'', PyFloat (f_const ops (2 / 100))), (''minor'', PyFloat (f_const ops (1 / 100))),
      (''height'', PyFloat (f_const ops (1 / 100)))]"
| "default_params ops R_circle = [(''radius'', PyFloat (f_const ops (1 / 100)))]"
| "default_params ops R_square = [(''size'', PyFloat (f_const ops (2 / 100)))]"
| "default_params ops R_rectangle =
     [(''width'', PyFloat (f_const ops (2 / 100))), (''length'', PyFloat (f_const ops (1 / 100)))]"
| "default_params ops R_slot =
     [(''length'', PyFloat (f_const ops (3 / 100))), (''width'', PyFloat (f_const ops (1 / 100))),
      (''height'', PyFloat (f_const ops (5 / 1000)))]"
| "default_params ops R_washer =
     [(''outer'', PyFloat (f_const ops (2 / 100))), (''inner'', PyFloat (f_const ops (1 / 100))),
      (''height'', PyFloat (f_const ops (5 / 1000)))]"
| "default_params ops R_l_shape =
     [(''width'', PyFloat (f_const ops (2 / 100))), (''length'', PyFloat (f_const ops (2 / 100))),
      (''thickness'', PyFloat (f_const ops (3 / 1000))), (''depth'', PyFloat (f_const ops (1 / 100)))]"
| "default_params ops R_cross =
     [(''size'', PyFloat (f_const ops (2 / 100))), (''thickness'', PyFloat (f_const ops (5 / 1000))),
      (''depth'', PyFloat (f_const ops (5 / 1000)))]"
| "default_params ops R_star =
     [(''outer'', PyFloat (f_const ops (2 / 100))),
      (''inner'', PyFloat (f_mul ops (f_const ops (2 / 100)) (f_const ops (4 / 10)))),
      (''points'', PyInt 5), (''height'', PyFloat (f_const ops (5 / 1000)))]"

subsection \<open>Prompts without digits\<close>

text \<open>A pattern that cannot match without consuming a digit.\<close>

primrec needs_digit :: "regex \<Rightarrow> bool" where
  "needs_digit (Lit w) = False"
| "needs_digit Digit = True"
| "needs_digit Space = False"
| "needs_digit (Seq a b) = (needs_digit a \<or> needs_digit b)"
| "needs_digit (Alt a b) = (needs_digit a \<and> needs_digit b)"
| "needs_digit (Opt a) = False"
| "needs_digit (Star a) = False"
| "needs_digit (Group n a) = needs_digit a"

definition digitless :: "string \<Rightarrow> bool" where
  "digitless s = list_all (\<lambda>c. \<not> isdigit c) s"

subsection \<open>Shape kinds\<close>

text \<open>The closed set of shape kinds as the specification spells it.\<close>

definition spec_kinds :: "string list" where
  "spec_kinds =
     [''cylinder'', ''cube'', ''box'', ''hexagon'', ''triangle'', ''pentagon'', ''octagon'',
      ''ellipse'', ''circle'', ''square'', ''rectangle'', ''slot'', ''washer'', ''l_shape'',
      ''cross'', ''star'']"

text \<open>The kinds a row of the table can return.\<close>

primrec rule_kinds :: "rule \<Rightarrow> string list" where
  "rule_kinds R_cylinder = [''cylinder'']"
| "rule_kinds R_cube = [''cube'']"
| "rule_kinds R_box = [''box'']"
| "rule_kinds R_hexagon = [''hexagon'']"
| "rule_kinds R_triangle = [''triangle'']"
| "rule_kinds R_pentagon = [''pentagon'']"
| "rule_kinds R_octagon = [''octagon'']"
| "rule_kinds R_ellipse = [''ellipse'']"
| "rule_kinds R_circle = [''circle'', ''cylinder'']"
| "rule_kinds R_square = [''square'', ''cube'']"
| "rule_kinds R_rectangle = [''rectangle'', ''box'']"
| "rule_kinds R_slot = [''slot'']"
| "rule_kinds R_washer = [''washer'']"
| "rule_kinds R_l_shape = [''lshape'']"
| "rule_kinds R_cross = [''cross'']"
| "rule_kinds R_star = [''star'']"

subsection \<open>Sample matches\<close>

text \<open>The groups of a match that captured the number \<open>2\<close> with the unit \<open>in\<close>, and
  of one that captured the number alone.\<close>

definition groups_2_in :: groups where
  "groups_2_in = no_groups(1 := Some ''2'', 2 := Some ''in'')"

definition groups_2 :: groups where
  "groups_2 = no_groups(1 := Some ''2'')"

section \<open>Facts about the matcher\<close>

lemma bind_r_simps [simp]:
  "bind_r (Inl e) f = Inl e"
  "bind_r (Inr x) f = f x"
  by (simp_all add: bind_r_def)

lemma star_list_mem:
  "x \<in> set (star_list f s g) \<longleftrightarrow>
     x = (s, g) \<or> (\<exists>y \<in> set (f s g). length (fst y) < length s \<and> x \<in> set (star_list f (fst y) (snd y)))"
  by (subst star_list.simps) auto

lemma star_list_keeps:
  "\<forall>s g x. x \<in> set (f s g) \<longrightarrow> snd x n = g n \<Longrightarrow> x \<in> set (star_list f s g) \<Longrightarrow> snd x n = g n"
proof (induction f s g rule: star_list.induct)
  case (1 f s g)
  from "1.prems"(2) consider "x = (s, g)"
    | y where "y \<in> set (f s g)" "length (fst y) < length s" "x \<in> set (star_list f (fst y) (snd y))"
    unfolding star_list_mem [of x f s g] by blast
  then show ?case
  proof cases
    case 1 then show ?thesis by simp
  next
    case (2 y)
    have "snd x n = snd y n" using "1.IH" [OF 2(1,2) "1.prems"(1) 2(3)] .
    moreover have "snd y n = g n" using "1.prems"(1) 2(1) by blast
    ultimately show ?thesis by simp
  qed
qed

lemma rmatch_keeps:
  "x \<in> set (rmatch r s g) \<Longrightarrow> n \<notin> groups_of r \<Longrightarrow> snd x n = g n"
proof (induction r arbitrary: s g x)
  case (Lit w)
  then show ?case by (simp split: if_splits)
next
  case Digit
  then show ?case by (cases s) (simp_all split: if_splits)
next
  case Space
  then show ?case by (cases s) (simp_all split: if_splits)
next
  case (Seq a b)
  from Seq.prems(1) obtain y where y: "y \<in> set (rmatch a s g)"
    and x: "x \<in> set (rmatch b (fst y) (snd y))" by auto
  have "snd x n = snd y n" using Seq.IH(2) [OF x] Seq.prems(2) by simp
  moreover have "snd y n = g n" using Seq.IH(1) [OF y] Seq.prems(2) by simp
  ultimately show ?case by simp
next
  case (Alt a b)
  from Alt.prems(1) have "x \<in> set (rmatch a s g) \<or> x \<in> set (rmatch b s g)" by simp
  then show ?case
  proof
    assume "x \<in> set (rmatch a s g)"
    then show ?thesis using Alt.IH(1) [of x s g] Alt.prems(2) by simp
  next
    assume "x \<in> set (rmatch b s g)"
    then show ?thesis using Alt.IH(2) [of x s g] Alt.prems(2) by simp
  qed
next
  case (Opt a)
  from Opt.prems(1) have "x \<in> set (rmatch a s g) \<or> x = (s, g)" by auto
  then show ?case
  proof
    assume "x \<in> set (rmatch a s g)"
    then show ?thesis using Opt.IH [of x s g] Opt.prems(2) by simp
  next
    assume "x = (s, g)"
    then show ?thesis by simp
  qed
next
  case (Star r)
  have n: "n \<notin> groups_of r" using Star.prems(2) by simp
  have all: "\<forall>s g x. x \<in> set (rmatch r s g) \<longrightarrow> snd x n = g n"
    by (intro allI impI) (rule Star.IH [OF _ n])
  have "x \<in> set (star_list (rmatch r) s g)" using Star.prems(1) by simp
  then show ?case by (rule star_list_keeps [OF all])
next
  case (Group m a)
  from Group.prems(1) obtain y where y: "y \<in> set (rmatch a s g)"
    and x: "x = (fst y, (snd y)(m := Some (take (length s - length (fst y)) s)))" by auto
  have "snd y n = g n" using Group.IH [OF y] Group.prems(2) by simp
  then show ?case using x Group.prems(2) by simp
qed

lemma rmatch_sets_by:
  "sets_by n inner r \<Longrightarrow> x \<in> set (rmatch r s g) \<Longrightarrow> \<exists>t. snd x n = Some t \<and> captured inner t"
proof (induction r arbitrary: s g x)
  case (Seq a b)
  from Seq.prems(2) obtain y where y: "y \<in> set (rmatch a s g)" and x: "x \<in> set (rmatch b (fst y) (snd y))"
    by auto
  show ?case
  proof (cases "sets_by n inner b")
    case True
    then show ?thesis using Seq.IH(2) x by blast
  next
    case False
    then have a: "sets_by n inner a" and nb: "n \<notin> groups_of b" using Seq.prems(1) by auto
    have "snd x n = snd y n" using rmatch_keeps [OF x nb] .
    then show ?thesis using Seq.IH(1) [OF a y] by simp
  qed
next
  case (Alt a b)
  from Alt.prems(2) have "x \<in> set (rmatch a s g) \<or> x \<in> set (rmatch b s g)" by simp
  then show ?case using Alt.IH(1) [of x s g] Alt.IH(2) [of x s g] Alt.prems(1) by auto
next
  case (Group m a)
  from Group.prems(2) obtain y where y: "y \<in> set (rmatch a s g)"
    and x: "x = (fst y, (snd y)(m := Some (take (length s - length (fst y)) s)))"
    by auto
  show ?case
  proof (cases "m = n")
    case True
    then have "a = inner" using Group.prems(1) by simp
    then have "captured inner (take (length s - length (fst y)) s)"
      unfolding captured_def using y by blast
    then show ?thesis using x True by simp
  next
    case False
    then have "sets_by n inner a" using Group.prems(1) by simp
    then show ?thesis using Group.IH [OF _ y] x False by simp
  qed
qed simp_all

lemma re_search_Some:
  "re_search r s = Some m \<Longrightarrow> \<exists>s0 x. x \<in> set (rmatch r s0 no_groups) \<and> m = snd x"
proof (induction s)
  case Nil
  then obtain x xs where "rmatch r [] no_groups = x # xs" "m = snd x"
    by (auto split: list.splits)
  then have "x \<in> set (rmatch r [] no_groups)" by simp
  then show ?case using \<open>m = snd x\<close> by blast
next
  case (Cons c cs)
  show ?case
  proof (cases "rmatch r (c # cs) no_groups")
    case Nil
    then show ?thesis using Cons by simp
  next
    case (Cons x xs)
    then have "x \<in> set (rmatch r (c # cs) no_groups)" "m = snd x"
      using Cons.prems by simp_all
    then show ?thesis by blast
  qed
qed

lemma rmatch_Seq_mem:
  "x \<in> set (rmatch (Seq a b) s g) \<longleftrightarrow>
     (\<exists>y\<in>set (rmatch a s g). x \<in> set (rmatch b (fst y) (snd y)))"
  by auto

lemma re_findall_mem:
  "m \<in> set (re_findall r s) \<Longrightarrow> \<exists>s0 x. x \<in> set (rmatch r s0 no_groups) \<and> m = snd x"
proof (induction r s rule: re_findall.induct)
  case (1 r s)
  show ?case
  proof (cases "rmatch r s no_groups")
    case Nil
    show ?thesis
    proof (cases s)
      case Nil
      then show ?thesis using "1.prems" \<open>rmatch r s no_groups = []\<close>
        by (subst (asm) re_findall.simps) simp
    next
      case (Cons c cs)
      then have "m \<in> set (re_findall r cs)" using "1.prems" \<open>rmatch r s no_groups = []\<close>
        by (subst (asm) re_findall.simps) simp
      then show ?thesis using "1.IH"(1) [OF \<open>rmatch r s no_groups = []\<close> Cons] by blast
    qed
  next
    case (Cons x xs)
    then have xin: "x \<in> set (rmatch r s no_groups)" by simp
    show ?thesis
    proof (cases "m = snd x")
      case True
      then show ?thesis using xin by blast
    next
      case False
      show ?thesis
      proof (cases "length (fst x) < length s")
        case True
        then have "m \<in> set (re_findall r (fst x))" using "1.prems" Cons False
          by (subst (asm) re_findall.simps) simp
        then show ?thesis using "1.IH"(2) [OF Cons True] by blast
      next
        case nolt: False
        show ?thesis
        proof (cases s)
          case Nil
          then show ?thesis using "1.prems" Cons False nolt
            by (subst (asm) re_findall.simps) simp
        next
          case (Cons c cs)
          then have "m \<in> set (re_findall r cs)" using "1.prems" \<open>rmatch r s no_groups = x # xs\<close> False nolt
            by (subst (asm) re_findall.simps) simp
          then show ?thesis using "1.IH"(3) [OF \<open>rmatch r s no_groups = x # xs\<close> nolt Cons] by blast
        qed
      qed
    qed
  qed
qed

lemma star_digit_mem:
  "x \<in> set (star_list (rmatch Digit) s g) \<Longrightarrow> \<exists>t. s = t @ fst x \<and> list_all isdigit t \<and> snd x = g"
proof (induction "rmatch Digit" s g rule: star_list.induct)
  case (1 s g)
  from "1.prems" consider "x = (s, g)"
    | y where "y \<in> set (rmatch Digit s g)" "length (fst y) < length s"
        "x \<in> set (star_list (rmatch Digit) (fst y) (snd y))"
    unfolding star_list_mem [of x "rmatch Digit" s g] by blast
  then show ?case
  proof cases
    case 1 then show ?thesis by simp
  next
    case (2 y)
    from "1.hyps" [OF 2(1,2) 2(3)] obtain t where t: "fst y = t @ fst x" "list_all isdigit t" "snd x = snd y"
      by blast
    from 2(1) obtain c where c: "s = c # fst y" "isdigit c" "snd y = g"
      by (cases s) (auto split: if_splits)
    have "s = (c # t) @ fst x" using c t by simp
    moreover have "list_all isdigit (c # t)" using c t by simp
    ultimately show ?thesis using t c by metis
  qed
qed

lemma plus_digit_mem:
  "x \<in> set (rmatch (Plus Digit) s g) \<Longrightarrow>
     \<exists>t. s = t @ fst x \<and> t \<noteq> [] \<and> list_all isdigit t \<and> snd x = g"
proof -
  assume "x \<in> set (rmatch (Plus Digit) s g)"
  then obtain y where y: "y \<in> set (rmatch Digit s g)"
    and x: "x \<in> set (star_list (rmatch Digit) (fst y) (snd y))"
    by (auto simp: Plus_def)
  from y obtain c where c: "s = c # fst y" "isdigit c" "snd y = g"
    by (cases s) (auto split: if_splits)
  from star_digit_mem [OF x] obtain t where t: "fst y = t @ fst x" "list_all isdigit t" "snd x = snd y"
    by blast
  have "s = (c # t) @ fst x \<and> c # t \<noteq> [] \<and> list_all isdigit (c # t) \<and> snd x = g"
    using c t by simp
  then show ?thesis by blast
qed

lemma number_re_mem:
  assumes "x \<in> set (rmatch number_re s g)"
  shows "\<exists>t. s = t @ fst x \<and> float_lit t \<and> snd x = g"
proof -
  from assms have "\<exists>y\<in>set (rmatch (Plus Digit) s g).
      \<exists>z\<in>set (rmatch (Opt (Lit ''.'')) (fst y) (snd y)).
        x \<in> set (rmatch (Star Digit) (fst z) (snd z))"
    unfolding number_re_def seqs.simps rmatch_Seq_mem .
  then obtain y z where y: "y \<in> set (rmatch (Plus Digit) s g)"
    and z: "z \<in> set (rmatch (Opt (Lit ''.'')) (fst y) (snd y))"
    and x0: "x \<in> set (rmatch (Star Digit) (fst z) (snd z))"
    by blast
  from x0 have x: "x \<in> set (star_list (rmatch Digit) (fst z) (snd z))" by simp
  from plus_digit_mem [OF y] obtain ip where ip: "s = ip @ fst y" "ip \<noteq> []" "list_all isdigit ip" "snd y = g"
    by blast
  from star_digit_mem [OF x] obtain fp where fp: "fst z = fp @ fst x" "list_all isdigit fp" "snd x = snd z"
    by blast
  from z have "(fst y = CHR ''.'' # fst z \<or> fst y = fst z) \<and> snd z = snd y"
    by (cases "fst y") (auto split: if_splits)
  then have "(s = (ip @ CHR ''.'' # fp) @ fst x \<or> s = (ip @ fp) @ fst x) \<and> snd x = g"
    using ip fp by auto
  then show ?thesis using ip fp unfolding float_lit_def by blast
qed

lemma not_isdigit_dot [simp]: "\<not> isdigit CHR ''.''"
  by (simp add: isdigit_def)

lemma float_lit_decimal: "float_lit t \<Longrightarrow> decimal_literal t"
proof -
  assume "float_lit t"
  then obtain ip fp where ip: "ip \<noteq> []" "list_all isdigit ip" and fp: "list_all isdigit fp"
    and t: "t = ip @ fp \<or> t = ip @ CHR ''.'' # fp"
    unfolding float_lit_def by blast
  from t show ?thesis
  proof
    assume "t = ip @ fp"
    then have tw: "takeWhile isdigit t = t" and dw: "dropWhile isdigit t = []" and "t \<noteq> []"
      using ip fp by (auto simp: list_all_iff)
    then show ?thesis unfolding decimal_literal_def Let_def tw dw by simp
  next
    assume t: "t = ip @ CHR ''.'' # fp"
    have tw: "takeWhile isdigit t = ip" and dw: "dropWhile isdigit t = CHR ''.'' # fp"
      using ip t by (simp_all add: list_all_iff takeWhile_append2 dropWhile_append2)
    show ?thesis unfolding decimal_literal_def Let_def tw dw using ip fp by simp
  qed
qed

lemma py_float_ok: "float_lit t \<Longrightarrow> py_float ops t = Inr (f_literal ops t)"
  by (simp add: py_float_def float_lit_decimal)

lemma captured_number: "captured number_re t \<Longrightarrow> float_lit t"
  unfolding captured_def using number_re_mem by fastforce

lemma captured_digits: "captured (Plus Digit) t \<Longrightarrow> t \<noteq> [] \<and> list_all isdigit t"
  unfolding captured_def using plus_digit_mem by fastforce

lemma search_float_group:
  assumes "re_search r s = Some m" and "sets_by n number_re r"
  shows "\<exists>v. float_group ops m n = Inr v"
proof -
  from re_search_Some [OF assms(1)] obtain s0 x where "x \<in> set (rmatch r s0 no_groups)" "m = snd x"
    by blast
  with rmatch_sets_by [OF assms(2)] obtain t where "m n = Some t" "captured number_re t"
    by blast
  then show ?thesis using py_float_ok [OF captured_number, of t ops] by (simp add: float_group_def)
qed

lemma sets_by_keyword_first: "sets_by 1 number_re (keyword_first_re kw)"
  by (simp add: keyword_first_re_def unit_re_def)

lemma sets_by_value_first: "sets_by 1 number_re (value_first_re kw)"
  by (simp add: value_first_re_def unit_re_def)

lemma sets_by_all_numbers: "sets_by 1 number_re all_numbers_re"
  by (simp add: all_numbers_re_def unit_re_def)

lemma sets_by_axbxc:
  "sets_by 1 number_re axbxc_re" "sets_by 2 number_re axbxc_re" "sets_by 3 number_re axbxc_re"
  by (simp_all add: axbxc_re_def number_re_def Plus_def)

lemma sets_by_axb:
  "sets_by 1 number_re axb_re" "sets_by 2 number_re axb_re"
  by (simp_all add: axb_re_def number_re_def Plus_def)

lemma sets_by_points: "sets_by 1 (Plus Digit) points_re"
  by (simp add: points_re_def)

lemma match_value_ok:
  "re_search r s = Some m \<Longrightarrow> sets_by 1 number_re r \<Longrightarrow> \<exists>v. match_value ops p m = Inr v"
proof -
  assume "re_search r s = Some m" "sets_by 1 number_re r"
  from search_float_group [OF this, of ops] obtain v where "float_group ops m 1 = Inr v" by blast
  then show ?thesis by (simp add: match_value_def Let_def)
qed

lemma extract_dimension_ok: "\<exists>v. extract_dimension ops p kws = Inr v"
proof (induction kws)
  case Nil
  then show ?case by simp
next
  case (Cons kw kws)
  show ?case
  proof (cases "re_search (keyword_first_re kw) (str_lower p)")
    case (Some m)
    from match_value_ok [OF Some sets_by_keyword_first, of ops p] obtain v where "match_value ops p m = Inr v" by auto
    then show ?thesis using Some by simp
  next
    case None
    show ?thesis
    proof (cases "re_search (value_first_re kw) (str_lower p)")
      case (Some m)
      from match_value_ok [OF Some sets_by_value_first, of ops p] obtain v where "match_value ops p m = Inr v" by auto
      then show ?thesis using Some None by simp
    next
      case None2: None
      then show ?thesis using None Cons.IH by simp
    qed
  qed
qed

lemma convert_all_ok:
  "\<forall>m\<in>set ms. \<exists>t. m 1 = Some t \<and> float_lit t \<Longrightarrow> \<exists>v. convert_all ops u ms = Inr v"
proof (induction ms)
  case Nil
  then show ?case by simp
next
  case (Cons m ms)
  then obtain t where t: "m 1 = Some t" "float_lit t" by auto
  from py_float_ok [OF t(2)] have v: "py_float ops t = Inr (f_literal ops t)" .
  from Cons obtain vs where "convert_all ops u ms = Inr vs" by auto
  then show ?case using t v by (simp add: Let_def)
qed

lemma extract_all_numbers_ok: "\<exists>v. extract_all_numbers ops p = Inr v"
proof -
  have "\<forall>m\<in>set (re_findall all_numbers_re (str_lower p)). \<exists>t. m 1 = Some t \<and> float_lit t"
  proof
    fix m assume "m \<in> set (re_findall all_numbers_re (str_lower p))"
    from re_findall_mem [OF this] obtain s0 x where "x \<in> set (rmatch all_numbers_re s0 no_groups)" "m = snd x"
      by blast
    with rmatch_sets_by [OF sets_by_all_numbers] obtain t where "m 1 = Some t" "captured number_re t"
      by blast
    then show "\<exists>t. m 1 = Some t \<and> float_lit t" using captured_number by blast
  qed
  then show ?thesis unfolding extract_all_numbers_def by (rule convert_all_ok)
qed

lemma extract_dimension_eq: "extract_dimension ops p kws = Inr (keyword_value ops p kws)"
  using extract_dimension_ok [of ops p kws] by (auto simp: keyword_value_def)

lemma extract_all_numbers_eq: "extract_all_numbers ops p = Inr (numbers_of ops p)"
  using extract_all_numbers_ok [of ops p] by (auto simp: numbers_of_def)

lemma points_group:
  assumes "re_search points_re s = Some m"
  shows "\<exists>t. m 1 = Some t \<and> t \<noteq> [] \<and> list_all isdigit t"
proof -
  from re_search_Some [OF assms] obtain s0 x where "x \<in> set (rmatch points_re s0 no_groups)" "m = snd x"
    by blast
  with rmatch_sets_by [OF sets_by_points] obtain t where "m 1 = Some t" "captured (Plus Digit) t"
    by blast
  then show ?thesis using captured_digits by blast
qed

section \<open>The branches in closed form\<close>

lemma get_steps:
  "bind_r (if \<not> truthy ops a \<and> ns \<noteq> [] then get_nth ns 0 else Inr a) k = k (pick ops a ns 0)"
  "bind_r (if \<not> truthy ops a \<and> length ns \<ge> 2 then get_nth ns 1 else Inr a) k = k (pick ops a ns 1)"
  "bind_r (if \<not> truthy ops a \<and> length ns \<ge> 3 then get_nth ns 2 else Inr a) k = k (pick ops a ns 2)"
  by (auto simp: pick_def get_nth_def nth_r_def)

lemma or_steps:
  "bind_r (if length ns \<ge> 1 then or_nth ops a ns 0 else Inr a) k = k (pick ops a ns 0)"
  "bind_r (if length ns \<ge> 2 then or_nth ops a ns 1 else Inr a) k = k (pick ops a ns 1)"
  "bind_r (if length ns \<ge> 3 then or_nth ops a ns 2 else Inr a) k = k (pick ops a ns 2)"
  "bind_r (if length ns \<ge> 4 then or_nth ops a ns 3 else Inr a) k = k (pick ops a ns 3)"
  by (auto simp: pick_def or_nth_def get_nth_def nth_r_def Suc_le_eq)

lemma or_nth_pick: "i < length ns \<Longrightarrow> or_nth ops a ns i = Inr (pick ops a ns i)"
  by (simp add: pick_def or_nth_def get_nth_def nth_r_def)

lemma val_pick: "val (py_or ops (pick ops a ns i) (Some d)) = PyFloat (filled ops a ns i d)"
  by (cases a) (auto simp: pick_def py_or_def filled_def positional_def)

lemma val_or: "val (py_or ops a (Some d)) = PyFloat (filled ops a [] i d)"
  by (cases a) (auto simp: py_or_def filled_def positional_def)

lemma parse_polygon_eq:
  "parse_polygon ops kind p u f =
     Inr \<lparr>shape_type = kind,
          params = [(''radius'', PyFloat (filled ops (keyword_value ops p [''radius'', ''r'', ''size'']) (numbers_of ops p) 0 (f_const ops (1 / 100)))),
                    (''height'', PyFloat (filled ops (keyword_value ops p [''height'', ''tall'', ''h'', ''thick'']) (numbers_of ops p) 1 (f_const ops (1 / 100))))],
          units = u, is_2d = f\<rparr>"
  unfolding parse_polygon_def extract_dimension_eq extract_all_numbers_eq bind_r_simps get_steps Let_def val_pick
  by simp

lemma parse_three_eq:
  "parse_three ops kind (na, ka, da) (nb, kb, db) (nc, kc, dc) p u f =
     Inr \<lparr>shape_type = kind,
          params = [(na, PyFloat (filled ops (keyword_value ops p ka) (numbers_of ops p) 0 (f_const ops da))),
                    (nb, PyFloat (filled ops (keyword_value ops p kb) (numbers_of ops p) 1 (f_const ops db))),
                    (nc, PyFloat (filled ops (keyword_value ops p kc) (numbers_of ops p) 2 (f_const ops dc)))],
          units = u, is_2d = f\<rparr>"
  unfolding parse_three_def extract_dimension_eq extract_all_numbers_eq bind_r_simps get_steps Let_def val_pick
  by simp

lemma parse_triangle_eq:
  "parse_triangle ops p u f =
     Inr \<lparr>shape_type = ''triangle'',
          params = [(''base'', PyFloat (filled ops (keyword_value ops p [''base'', ''width'', ''b'', ''w'']) (numbers_of ops p) 0 (f_const ops (2 / 100)))),
                    (''tri_height'', PyFloat (filled ops (keyword_value ops p [''height'', ''tall'', ''h'']) (numbers_of ops p) 1 (f_const ops (2 / 100)))),
                    (''depth'', PyFloat (filled ops (keyword_value ops p [''depth'', ''thick'', ''extrude'', ''d'']) (numbers_of ops p) 2 (f_const ops (1 / 100))))],
          units = u, is_2d = f\<rparr>"
  unfolding parse_triangle_def extract_dimension_eq extract_all_numbers_eq bind_r_simps get_steps Let_def val_pick
  by simp

lemma parse_lshape_eq:
  "parse_lshape ops p u f =
     Inr \<lparr>shape_type = ''lshape'',
          params = [(''width'', PyFloat (filled ops (keyword_value ops p [''width'', ''w'']) (numbers_of ops p) 0 (f_const ops (2 / 100)))),
                    (''length'', PyFloat (filled ops (keyword_value ops p [''length'', ''l'', ''height'', ''h'']) (numbers_of ops p) 1 (f_const ops (2 / 100)))),
                    (''thickness'', PyFloat (filled ops (keyword_value ops p [''thick'', ''t'']) (numbers_of ops p) 2 (f_const ops (3 / 1000)))),
                    (''depth'', PyFloat (filled ops (keyword_value ops p [''depth'', ''d'', ''extrude'']) (numbers_of ops p) 3 (f_const ops (1 / 100))))],
          units = u, is_2d = f\<rparr>"
  unfolding parse_lshape_def extract_dimension_eq extract_all_numbers_eq bind_r_simps or_steps Let_def val_pick
  by simp

lemma parse_cross_eq:
  "parse_cross ops p u f =
     Inr \<lparr>shape_type = ''cross'',
          params = [(''size'', PyFloat (filled ops (keyword_value ops p [''size'', ''s'', ''width'', ''w'']) (numbers_of ops p) 0 (f_const ops (2 / 100)))),
                    (''thickness'', PyFloat (filled ops (keyword_value ops p [''thick'', ''t'', ''arm'']) (numbers_of ops p) 1 (f_const ops (5 / 1000)))),
                    (''depth'', PyFloat (filled ops (keyword_value ops p [''depth'', ''d'', ''height'', ''h'']) (numbers_of ops p) 2 (f_const ops (5 / 1000))))],
          units = u, is_2d = f\<rparr>"
  unfolding parse_cross_def extract_dimension_eq extract_all_numbers_eq bind_r_simps or_steps Let_def val_pick
  by simp

lemma pick_truthy [simp]: "truthy ops a \<Longrightarrow> pick ops a ns i = a"
  by (simp add: pick_def)

lemma pick_nil [simp]: "pick ops a [] i = a"
  by (simp add: pick_def)

lemma radius_from_diameter_eq:
  "radius_from_diameter ops r d = Inr (radius_or_half ops r d)"
  by (cases d) (simp_all add: radius_from_diameter_def radius_or_half_def py_div_def)

lemma parse_cylinder_eq:
  "parse_cylinder ops p u =
     Inr \<lparr>shape_type = ''cylinder'',
          params =
            [(''radius'', PyFloat (filled ops (radius_or_half ops (keyword_value ops p [''radius'', ''r''])
                                     (keyword_value ops p [''diameter'', ''dia'', ''d'']))
                                   (enough 2 (numbers_of ops p)) 0 (f_const ops (1 / 100)))),
             (''height'', PyFloat (filled ops (keyword_value ops p [''height'', ''tall'', ''long'', ''h''])
                                   (enough 2 (numbers_of ops p)) 1 (f_const ops (2 / 100))))],
          units = u, is_2d = False\<rparr>"
proof -
  define r where "r = radius_or_half ops (keyword_value ops p [''radius'', ''r'']) (keyword_value ops p [''diameter'', ''dia'', ''d''])"
  define h where "h = keyword_value ops p [''height'', ''tall'', ''long'', ''h'']"
  define ns where "ns = numbers_of ops p"
  have *: "parse_cylinder ops p u =
     bind_r (if \<not> truthy ops r \<or> \<not> truthy ops h then
               (if length ns \<ge> 2 then
                   bind_r (or_nth ops r ns 0) (\<lambda>radius.
                   bind_r (or_nth ops h ns 1) (\<lambda>height. Inr (radius, height)))
                 else Inr (r, h))
             else Inr (r, h)) (\<lambda>(radius, height).
       Inr \<lparr>shape_type = ''cylinder'',
             params = [(''radius'', val (py_or ops radius (Some (f_const ops (1 / 100))))),
                       (''height'', val (py_or ops height (Some (f_const ops (2 / 100)))))],
             units = u, is_2d = False\<rparr>)"
    unfolding parse_cylinder_def extract_dimension_eq extract_all_numbers_eq bind_r_simps
      radius_from_diameter_eq Let_def r_def h_def ns_def ..
  show ?thesis
  proof (cases "2 \<le> length ns")
    case True
    then have e: "enough 2 ns = ns" by (simp add: enough_def)
    from True have "0 < length ns" "1 < length ns" by linarith+
    then have "or_nth ops r ns 0 = Inr (pick ops r ns 0)" "or_nth ops h ns 1 = Inr (pick ops h ns 1)"
      by (simp_all only: or_nth_pick)
    then show ?thesis unfolding * r_def [symmetric] h_def [symmetric] ns_def [symmetric] e
      using True
      by (cases "truthy ops r"; cases "truthy ops h") (simp_all add: val_pick [symmetric])
  next
    case False
    then have e: "enough 2 ns = []" by (simp add: enough_def)
    show ?thesis unfolding * r_def [symmetric] h_def [symmetric] ns_def [symmetric] e
      using False by (simp add: val_pick [symmetric])
  qed
qed

lemma py_or_pick: "py_or ops (pick ops a ns i) (Some d) = Some (filled ops a ns i d)"
  by (cases a) (auto simp: pick_def py_or_def filled_def positional_def)

lemma parse_cube_eq:
  "parse_cube ops p u =
     Inr \<lparr>shape_type = ''cube'',
          params = [(''size'', PyFloat (keyword_or_head ops (keyword_value ops p [''side'', ''size'', ''length''])
                                        (numbers_of ops p) (f_const ops (2 / 100))))],
          units = u, is_2d = False\<rparr>"
  unfolding parse_cube_def extract_dimension_eq extract_all_numbers_eq bind_r_simps
  by (cases "keyword_value ops p [''side'', ''size'', ''length'']"; cases "numbers_of ops p")
     (simp_all add: keyword_or_head_def head_or_def get_nth_def nth_r_def)

lemma parse_circle_eq:
  "parse_circle ops p u =
     (let radius = filled ops (radius_or_half ops (keyword_value ops p [''radius'', ''r''])
                             (keyword_value ops p [''diameter'', ''dia'', ''d'']))
                          (numbers_of ops p) 0 (f_const ops (1 / 100));
          height = keyword_value ops p [''height'', ''tall'', ''h'', ''thick'', ''extrude'']
      in if truthy ops height then
           Inr \<lparr>shape_type = ''cylinder'',
                params = [(''radius'', PyFloat radius), (''height'', val height)],
                units = u, is_2d = False\<rparr>
         else
           Inr \<lparr>shape_type = ''circle'', params = [(''radius'', PyFloat radius)],
                units = u, is_2d = True\<rparr>)"
  unfolding parse_circle_def extract_dimension_eq extract_all_numbers_eq radius_from_diameter_eq
    bind_r_simps
  by (cases "radius_or_half ops (keyword_value ops p [''radius'', ''r''])
               (keyword_value ops p [''diameter'', ''dia'', ''d''])";
      cases "numbers_of ops p")
     (simp_all add: get_nth_def nth_r_def py_or_def filled_def positional_def Let_def)

lemma parse_square_eq:
  "parse_square ops p u =
     (let size = filled ops (keyword_value ops p [''side'', ''size'', ''length'', ''s'']) (numbers_of ops p) 0 (f_const ops (2 / 100));
          height = keyword_value ops p [''height'', ''tall'', ''h'', ''thick'', ''extrude'']
      in if truthy ops height then
           Inr \<lparr>shape_type = ''cube'', params = [(''size'', PyFloat size)],
                units = u, is_2d = False\<rparr>
         else
           Inr \<lparr>shape_type = ''square'', params = [(''size'', PyFloat size)],
                units = u, is_2d = True\<rparr>)"
  unfolding parse_square_def extract_dimension_eq extract_all_numbers_eq bind_r_simps get_steps
    Let_def py_or_pick
  by simp

lemma float_group_eq:
  "re_search r s = Some m \<Longrightarrow> sets_by n number_re r \<Longrightarrow> float_group ops m n = Inr (group_value ops m n)"
  using search_float_group [of r s m n ops] by (auto simp: group_value_def)

lemma Some_filled: "Some (filled ops a ns i d) = py_or ops (pick ops a ns i) (Some d)"
  by (simp add: py_or_pick)

lemma parse_box_eq:
  "parse_box ops p pl u =
     (case box_values ops p pl of (w, h, d) \<Rightarrow>
        Inr \<lparr>shape_type = ''box'',
             params = [(''width'', PyFloat w), (''height'', PyFloat h), (''depth'', PyFloat d)],
             units = u, is_2d = False\<rparr>)"
proof (cases "re_search axbxc_re pl")
  case (Some m)
  note g = float_group_eq [OF Some sets_by_axbxc(1)] float_group_eq [OF Some sets_by_axbxc(2)]
    float_group_eq [OF Some sets_by_axbxc(3)]
  show ?thesis
    unfolding parse_box_def box_values_def extract_dimension_eq extract_all_numbers_eq bind_r_simps
      Some option.case Let_def g
    by (simp add: val_pick [symmetric])
next
  case None
  consider "3 \<le> length (numbers_of ops p)" | "length (numbers_of ops p) = 1"
    | "\<not> 3 \<le> length (numbers_of ops p)" "length (numbers_of ops p) \<noteq> 1" by blast
  then show ?thesis
  proof cases
    case 1
    then have "0 < length (numbers_of ops p)" "1 < length (numbers_of ops p)" "2 < length (numbers_of ops p)"
      by linarith+
    then have o: "or_nth ops a (numbers_of ops p) 0 = Inr (pick ops a (numbers_of ops p) 0)"
      "or_nth ops a (numbers_of ops p) 1 = Inr (pick ops a (numbers_of ops p) 1)"
      "or_nth ops a (numbers_of ops p) 2 = Inr (pick ops a (numbers_of ops p) 2)" for a
      by (simp_all only: or_nth_pick)
    show ?thesis
      unfolding parse_box_def box_values_def extract_dimension_eq extract_all_numbers_eq bind_r_simps
        None option.case Let_def o
      using 1 by (simp add: py_or_pick)
  next
    case 2
    then obtain n where n: "numbers_of ops p = [n]" by (cases "numbers_of ops p") auto
    show ?thesis
      unfolding parse_box_def box_values_def extract_dimension_eq extract_all_numbers_eq bind_r_simps
        None option.case Let_def n
      by (simp add: get_nth_def nth_r_def py_or_def filled_def positional_def)
  next
    case 3
    show ?thesis
      unfolding parse_box_def box_values_def extract_dimension_eq extract_all_numbers_eq bind_r_simps
        None option.case Let_def
      using 3 by (simp add: val_pick [symmetric])
  qed
qed

lemma parse_rectangle_eq:
  "parse_rectangle ops p pl u =
     (case rectangle_values ops p pl of (w, l) \<Rightarrow>
        let depth = keyword_value ops p [''depth'', ''thick'', ''extrude'', ''d'']
        in if truthy ops depth then
             Inr \<lparr>shape_type = ''box'',
                  params = [(''width'', PyFloat w), (''height'', val depth), (''depth'', PyFloat l)],
                  units = u, is_2d = False\<rparr>
           else
             Inr \<lparr>shape_type = ''rectangle'',
                  params = [(''width'', PyFloat w), (''length'', PyFloat l)],
                  units = u, is_2d = True\<rparr>)"
proof (cases "re_search axb_re pl")
  case (Some m)
  note g = float_group_eq [OF Some sets_by_axb(1)] float_group_eq [OF Some sets_by_axb(2)]
  show ?thesis
    unfolding parse_rectangle_def rectangle_values_def extract_dimension_eq extract_all_numbers_eq
      bind_r_simps Some option.case Let_def g
    by (simp add: val_pick [symmetric])
next
  case None
  show ?thesis
  proof (cases "2 \<le> length (numbers_of ops p)")
    case True
    then have "0 < length (numbers_of ops p)" "1 < length (numbers_of ops p)" by linarith+
    then have o: "or_nth ops a (numbers_of ops p) 0 = Inr (pick ops a (numbers_of ops p) 0)"
      "or_nth ops a (numbers_of ops p) 1 = Inr (pick ops a (numbers_of ops p) 1)" for a
      by (simp_all only: or_nth_pick)
    show ?thesis
      unfolding parse_rectangle_def rectangle_values_def extract_dimension_eq
        extract_all_numbers_eq bind_r_simps None option.case Let_def o
      using True by (simp add: py_or_pick enough_def)
  next
    case False
    show ?thesis
      unfolding parse_rectangle_def rectangle_values_def extract_dimension_eq
        extract_all_numbers_eq bind_r_simps None option.case Let_def
      using False by (simp add: val_pick [symmetric] enough_def)
  qed
qed

lemma points_step:
  "bind_r (case re_search points_re pl of Some points_match \<Rightarrow> int_group points_match 1
           | None \<Rightarrow> Inr 5) k
   = (if star_overflow pl then Inl ValueError else k (points_value pl))"
proof (cases "re_search points_re pl")
  case None
  then show ?thesis by (simp add: star_overflow_def points_value_def)
next
  case (Some m)
  from points_group [OF Some] obtain t where t: "m 1 = Some t" "t \<noteq> []" "list_all isdigit t"
    by blast
  then show ?thesis using Some
    by (simp add: star_overflow_def points_value_def int_group_def py_int_def)
qed

lemma inner_step:
  "bind_r (if truthy ops inner then Inr inner else py_mul ops (Some outer) (4 / 10)) k
   = k (Some (inner_or ops inner outer))"
  by (cases inner) (auto simp: py_mul_def inner_or_def)

lemma parse_star_eq:
  "parse_star ops p pl u f =
     (if star_overflow pl then Inl ValueError
      else
        let outer = filled ops (keyword_value ops p [''outer'', ''radius'', ''r'', ''size'']) (numbers_of ops p) 0 (f_const ops (2 / 100))
        in Inr \<lparr>shape_type = ''star'',
                 params = [(''outer'', PyFloat outer),
                           (''inner'', PyFloat (inner_or ops (keyword_value ops p [''inner'']) outer)),
                           (''points'', PyInt (points_value pl)),
                           (''height'', PyFloat (filled ops (keyword_value ops p [''height'', ''h'', ''thick'', ''depth''])
                                                  (numbers_of ops p) 1 (f_const ops (5 / 1000))))],
                 units = u, is_2d = f\<rparr>)"
  unfolding parse_star_def extract_dimension_eq extract_all_numbers_eq bind_r_simps points_step
    get_steps Let_def py_or_pick inner_step
  by simp

section \<open>Dispatch\<close>

lemma parse_prompt_classify:
  "parse_prompt ops p = (case classify p of None \<Rightarrow> Inr None | Some r \<Rightarrow> returns (branch ops r p))"
  by (simp add: parse_prompt_def classify_def priority_table_def asks_2d_def prompt_lower_of_def
        any_in_def Let_def)

lemma str_in_sublist: "str_in w s = sublist w s"
  by (induction s) (simp_all add: sublist_Cons_right)

lemma sublist_dropWhile:
  "w \<noteq> [] \<Longrightarrow> \<not> P (hd w) \<Longrightarrow> sublist w (dropWhile P s) = sublist w s"
proof (induction s)
  case Nil
  then show ?case by simp
next
  case (Cons c cs)
  show ?case
  proof (cases "P c")
    case True
    have "\<not> prefix w (c # cs)"
    proof
      assume "prefix w (c # cs)"
      then have "hd w = c" using Cons.prems(1) by (cases w) auto
      then show False using True Cons.prems(2) by simp
    qed
    then show ?thesis using True Cons by (simp add: sublist_Cons_right)
  next
    case False
    then show ?thesis by simp
  qed
qed

lemma str_in_strip:
  assumes "w \<noteq> []" "\<not> isspace (hd w)" "\<not> isspace (last w)"
  shows "str_in w (str_strip s) = str_in w s"
proof -
  have r: "rev w \<noteq> []" "\<not> isspace (hd (rev w))" using assms by (simp_all add: hd_rev)
  have "sublist w (str_strip s) = sublist (rev w) (dropWhile isspace (rev (dropWhile isspace s)))"
    unfolding str_strip_def by (metis sublist_rev rev_rev_ident)
  also have "\<dots> = sublist (rev w) (rev (dropWhile isspace s))"
    by (rule sublist_dropWhile [of "rev w" isspace, OF r])
  also have "\<dots> = sublist w (dropWhile isspace s)" by (simp add: sublist_rev)
  also have "\<dots> = sublist w s" by (rule sublist_dropWhile [of w isspace, OF assms(1,2)])
  finally show ?thesis by (simp add: str_in_sublist)
qed

lemma branch_closed:
  "branch ops r p =
     (if r = R_star \<and> star_overflow (prompt_lower_of p) then Inl ValueError
      else Inr \<lparr>shape_type = expected_kind ops r p, params = expected_params ops r p,
                units = detect_units p, is_2d = expected_2d ops r p\<rparr>)"
  by (cases r)
     (simp_all add: parse_cylinder_eq parse_cube_eq parse_box_eq parse_hexagon_def
        parse_pentagon_def parse_octagon_def parse_polygon_eq parse_triangle_eq
        parse_ellipse_def parse_slot_def parse_washer_def parse_three_eq parse_circle_eq
        parse_square_eq parse_rectangle_eq parse_lshape_eq parse_cross_eq parse_star_eq
        expected_2d_def extrusion_def param_def Let_def split: prod.splits)

lemma parse_prompt_closed:
  "parse_prompt ops p =
     (case classify p of
        None \<Rightarrow> Inr None
      | Some r \<Rightarrow>
          if raises_on p then Inl ValueError
          else Inr (Some \<lparr>shape_type = expected_kind ops r p, params = expected_params ops r p,
                          units = detect_units p, is_2d = expected_2d ops r p\<rparr>))"
  by (cases "classify p") (simp_all add: parse_prompt_classify branch_closed returns_def raises_on_def)

section \<open>A prompt with a long run of digits\<close>

lemma str_in_replicate:
  "a \<noteq> c \<Longrightarrow> str_in (a # w) (replicate n c @ t) = str_in (a # w) t"
  by (induction n) simp_all

lemma str_strip_id:
  "s \<noteq> [] \<Longrightarrow> \<not> isspace (hd s) \<Longrightarrow> \<not> isspace (last s) \<Longrightarrow> str_strip s = s"
proof -
  assume s: "s \<noteq> []" "\<not> isspace (hd s)" "\<not> isspace (last s)"
  then have "dropWhile isspace s = s" by (simp add: dropWhile_eq_self_iff)
  moreover have "dropWhile isspace (rev s) = rev s"
    using s by (simp add: dropWhile_eq_self_iff hd_rev)
  ultimately show ?thesis by (simp add: str_strip_def)
qed

lemma prompt_lower_digits:
  "prompt_lower_of (digits_point_star (Suc n)) = digits_point_star (Suc n)"
proof -
  have l: "str_lower (digits_point_star (Suc n)) = digits_point_star (Suc n)"
    by (simp add: digits_point_star_def str_lower_def lower_char_def)
  have "str_strip (digits_point_star (Suc n)) = digits_point_star (Suc n)"
    by (rule str_strip_id) (simp_all add: digits_point_star_def isspace_def)
  then show ?thesis by (simp add: prompt_lower_of_def l)
qed

lemma classify_digits: "classify (digits_point_star (Suc n)) = Some R_star"
  unfolding classify_def prompt_lower_digits
  unfolding digits_point_star_def priority_table_def any_in_def
  by (simp add: str_in_replicate)

lemma star_digit_hd:
  "list_all isdigit ds \<Longrightarrow> \<not> isdigit c \<Longrightarrow>
   \<exists>tl. star_list (rmatch Digit) (ds @ c # t) g = (c # t, g) # tl"
proof (induction ds)
  case Nil
  then show ?case by (subst star_list.simps) simp
next
  case (Cons d ds)
  from Cons.prems have "list_all isdigit ds" "isdigit d" by simp_all
  with Cons.IH Cons.prems(2) obtain tl
    where "star_list (rmatch Digit) (ds @ c # t) g = (c # t, g) # tl" by blast
  then show ?case using \<open>isdigit d\<close> by (subst star_list.simps) simp
qed

lemma points_re_hd:
  assumes "list_all isdigit ds" "isdigit d"
  shows "\<exists>tl g'. rmatch points_re (d # ds @ '' point star'') no_groups = ('' star'', g') # tl
           \<and> g' 1 = Some (d # ds)"
proof -
  let ?s = "d # ds @ '' point star''"
  obtain tl where "star_list (rmatch Digit) (ds @ '' point star'') no_groups = ('' point star'', no_groups) # tl"
    using star_digit_hd [OF assms(1), of "CHR '' ''" "''point star''" no_groups]
    by (auto simp: isdigit_def)
  then have "rmatch (Plus Digit) ?s no_groups = ('' point star'', no_groups) # tl"
    using assms(2) by (simp add: Plus_def)
  then have g: "rmatch (Group 1 (Plus Digit)) ?s no_groups =
      ('' point star'', no_groups(1 := Some (d # ds)))
      # map (\<lambda>x. (fst x, (snd x)(1 := Some (take (length ?s - length (fst x)) ?s)))) tl"
    by simp
  have "rmatch (Seq (Star Space) (Lit ''point'')) '' point star'' g' = [('' star'', g')]" for g'
    by (simp add: star_list.simps [of _ "c # cs" for c cs] star_list.simps [of _ "[]"] isspace_def)
  then show ?thesis unfolding points_re_def seqs.simps rmatch.simps(4) [of "Group 1 (Plus Digit)"] g
    by simp
qed

lemma star_overflow_digits:
  "star_overflow (digits_point_star (Suc n)) = (Suc n > int_max_str_digits)"
proof -
  obtain tl g' where "rmatch points_re (CHR ''1'' # replicate n CHR ''1'' @ '' point star'') no_groups
      = ('' star'', g') # tl" and "g' 1 = Some (CHR ''1'' # replicate n CHR ''1'')"
    using points_re_hd [of "replicate n CHR ''1''" "CHR ''1''"] by (auto simp: isdigit_def list_all_iff)
  then show ?thesis by (simp add: star_overflow_def digits_point_star_def)
qed

lemma parse_prompt_digits:
  "parse_prompt ops (digits_point_star (Suc n)) = Inl ValueError \<longleftrightarrow> Suc n > int_max_str_digits"
  by (simp add: parse_prompt_closed classify_digits raises_on_def prompt_lower_digits star_overflow_digits)

section \<open>Triggers, keys and prompts without digits\<close>

lemma any_in_strip:
  "\<forall>w\<in>set ws. w \<noteq> [] \<and> \<not> isspace (hd w) \<and> \<not> isspace (last w) \<Longrightarrow>
   any_in ws (str_strip s) = any_in ws s"
  by (induction ws) (simp_all add: any_in_def str_in_strip)

lemma any_in_concat: "any_in (concat wss) s = (\<exists>ws\<in>set wss. any_in ws s)"
  by (induction wss) (auto simp: any_in_def)

lemma trigger_rows_strip:
  "row \<in> set priority_table \<Longrightarrow> any_in (snd row) (str_strip s) = any_in (snd row) s"
  by (rule any_in_strip) (auto simp: priority_table_def isspace_def)

lemma classify_None_iff: "classify p = None \<longleftrightarrow> \<not> any_in all_triggers (str_lower p)"
proof -
  have "classify p = None \<longleftrightarrow> (\<forall>row\<in>set priority_table. \<not> any_in (snd row) (prompt_lower_of p))"
    by (auto simp: classify_def find_None_iff)
  also have "\<dots> \<longleftrightarrow> (\<forall>row\<in>set priority_table. \<not> any_in (snd row) (str_lower p))"
    by (simp add: prompt_lower_of_def trigger_rows_strip)
  also have "\<dots> \<longleftrightarrow> \<not> any_in all_triggers (str_lower p)"
    by (simp add: all_triggers_def any_in_concat)
  finally show ?thesis .
qed

lemma asks_2d_lower: "asks_2d p = any_in [''2d'', ''sketch'', ''draw'', ''flat''] (str_lower p)"
  unfolding asks_2d_def prompt_lower_of_def
  by (rule any_in_strip) (simp add: isspace_def)

lemma val_truthy_not_none: "truthy ops a \<Longrightarrow> PyNone \<noteq> val a"
  by (cases a) simp_all

lemma expected_keys:
  "map fst (expected_params ops r p) = required_keys (expected_kind ops r p)"
  by (cases r) (simp_all add: param_def required_keys_def required_table_def split: prod.splits)

lemma expected_no_none: "PyNone \<notin> snd ` set (expected_params ops r p)"
  by (cases r) (auto simp: param_def split: prod.splits dest: val_truthy_not_none)

lemma star_list_subset:
  "\<forall>s g x. x \<in> set (f s g) \<longrightarrow> set (fst x) \<subseteq> set s \<Longrightarrow>
   x \<in> set (star_list f s g) \<Longrightarrow> set (fst x) \<subseteq> set s"
proof (induction f s g rule: star_list.induct)
  case (1 f s g)
  from "1.prems"(2) consider "x = (s, g)"
    | y where "y \<in> set (f s g)" "length (fst y) < length s" "x \<in> set (star_list f (fst y) (snd y))"
    unfolding star_list_mem [of x f s g] by blast
  then show ?case
  proof cases
    case 1 then show ?thesis by simp
  next
    case (2 y)
    have "set (fst x) \<subseteq> set (fst y)" using "1.IH" [OF 2(1,2) "1.prems"(1) 2(3)] .
    moreover have "set (fst y) \<subseteq> set s" using "1.prems"(1) 2(1) by blast
    ultimately show ?thesis by blast
  qed
qed

lemma rmatch_subset: "x \<in> set (rmatch r s g) \<Longrightarrow> set (fst x) \<subseteq> set s"
proof (induction r arbitrary: s g x)
  case (Lit w)
  then show ?case by (auto split: if_splits dest: in_set_dropD)
next
  case Digit
  then show ?case by (cases s) (auto split: if_splits)
next
  case Space
  then show ?case by (cases s) (auto split: if_splits)
next
  case (Seq a b)
  from Seq.prems obtain y where y: "y \<in> set (rmatch a s g)"
    and x: "x \<in> set (rmatch b (fst y) (snd y))" by auto
  show ?case using Seq.IH(1) [OF y] Seq.IH(2) [OF x] by blast
next
  case (Alt a b)
  from Alt.prems have "x \<in> set (rmatch a s g) \<or> x \<in> set (rmatch b s g)" by simp
  then show ?case using Alt.IH(1) [of x s g] Alt.IH(2) [of x s g] by blast
next
  case (Opt a)
  from Opt.prems have "x \<in> set (rmatch a s g) \<or> x = (s, g)" by auto
  then show ?case using Opt.IH [of x s g] by auto
next
  case (Star r)
  have all: "\<forall>s g x. x \<in> set (rmatch r s g) \<longrightarrow> set (fst x) \<subseteq> set s"
    by (intro allI impI) (rule Star.IH)
  have "x \<in> set (star_list (rmatch r) s g)" using Star.prems by simp
  then show ?case by (rule star_list_subset [OF all])
next
  case (Group m a)
  from Group.prems obtain y where y: "y \<in> set (rmatch a s g)" and x: "fst x = fst y" by auto
  show ?case using Group.IH [OF y] x by simp
qed

lemma rmatch_digitless:
  "needs_digit r \<Longrightarrow> digitless s \<Longrightarrow> rmatch r s g = []"
proof (induction r arbitrary: s g)
  case Digit
  then show ?case by (cases s) (simp_all add: digitless_def)
next
  case (Seq a b)
  show ?case
  proof (cases "needs_digit a")
    case True
    then show ?thesis using Seq.IH(1) Seq.prems(2) by simp
  next
    case False
    then have nb: "needs_digit b" using Seq.prems(1) by simp
    have "rmatch b (fst y) (snd y) = []" if "y \<in> set (rmatch a s g)" for y
    proof -
      have "set (fst y) \<subseteq> set s" using rmatch_subset [OF that] .
      then have "digitless (fst y)" using Seq.prems(2) by (auto simp: digitless_def list_all_iff)
      then show ?thesis using Seq.IH(2) [OF nb] by simp
    qed
    then show ?thesis by simp
  qed
next
  case (Alt a b)
  then show ?case by simp
next
  case (Group n a)
  then show ?case by simp
qed simp_all

lemma re_search_digitless: "needs_digit r \<Longrightarrow> digitless s \<Longrightarrow> re_search r s = None"
proof (induction s)
  case Nil
  then show ?case by (simp add: rmatch_digitless)
next
  case (Cons c cs)
  then have "digitless cs" by (simp add: digitless_def)
  then show ?case using Cons by (simp add: rmatch_digitless)
qed

lemma re_findall_digitless: "needs_digit r \<Longrightarrow> digitless s \<Longrightarrow> re_findall r s = []"
proof (induction s)
  case Nil
  then show ?case by (subst re_findall.simps) (simp add: rmatch_digitless)
next
  case (Cons c cs)
  then have "digitless cs" by (simp add: digitless_def)
  then show ?case using Cons by (subst re_findall.simps) (simp add: rmatch_digitless)
qed

lemma needs_digit_patterns [simp]:
  "needs_digit (keyword_first_re kw)" "needs_digit (value_first_re kw)"
  "needs_digit all_numbers_re" "needs_digit axbxc_re" "needs_digit axb_re" "needs_digit points_re"
  by (simp_all add: keyword_first_re_def value_first_re_def all_numbers_re_def axbxc_re_def
        axb_re_def points_re_def number_re_def Plus_def)

lemma keyword_value_digitless:
  "digitless (str_lower p) \<Longrightarrow> keyword_value ops p kws = None"
proof -
  assume d: "digitless (str_lower p)"
  have "extract_dimension ops p kws = Inr None"
    by (induction kws) (simp_all add: re_search_digitless d)
  then show ?thesis by (simp add: keyword_value_def)
qed

lemma numbers_of_digitless: "digitless (str_lower p) \<Longrightarrow> numbers_of ops p = []"
  by (simp add: numbers_of_def extract_all_numbers_def re_findall_digitless)

lemma digitless_strip: "digitless s \<Longrightarrow> digitless (str_strip s)"
proof -
  assume d: "digitless s"
  have "set (str_strip s) \<subseteq> set s"
    unfolding str_strip_def using set_dropWhileD [of _ isspace "rev (dropWhile isspace s)"]
      set_dropWhileD [of _ isspace s] by auto
  then show ?thesis using d by (auto simp: digitless_def list_all_iff)
qed

lemma parse_prompt_digitless:
  assumes "digitless (str_lower p)" "classify p = Some r"
  shows "parsed_params ops p = Some (default_params ops r)"
proof -
  have pl: "digitless (prompt_lower_of p)"
    using assms(1) by (simp add: prompt_lower_of_def digitless_strip)
  have no: "\<not> raises_on p"
    by (simp add: raises_on_def star_overflow_def re_search_digitless pl)
  have "expected_params ops r p = default_params ops r"
    by (cases r)
       (simp_all add: param_def keyword_value_digitless numbers_of_digitless assms(1) filled_def
          positional_def keyword_or_head_def head_or_def enough_def radius_or_half_def
          box_values_def rectangle_values_def extrusion_def inner_or_def points_value_def
          re_search_digitless pl)
  then show ?thesis using assms(2) no by (simp add: parsed_params_def parse_prompt_closed)
qed

lemma parse_prompt_Some:
  assumes "parse_prompt ops p = Inr (Some shape)"
  shows "\<exists>r. classify p = Some r \<and> \<not> raises_on p \<and>
           shape = \<lparr>shape_type = expected_kind ops r p, params = expected_params ops r p,
                     units = detect_units p, is_2d = expected_2d ops r p\<rparr>"
  using assms unfolding parse_prompt_closed [of ops p]
  by (cases "classify p") (auto split: if_splits)

lemma trigger_facts:
  "\<forall>row \<in> set priority_table. \<forall>w \<in> set (snd row).
     digitless (str_lower w) \<and> classify w = Some (fst row)"
  by code_simp

lemma expected_kind_rule: "expected_kind ops r p \<in> set (rule_kinds r)"
  by (cases r) simp_all

section \<open>The claims\<close>

















text \<open>Claim C7. In the conversions of \<open>extract_dimension\<close> and \<open>extract_all_numbers\<close>, a
  unit captured next to the number is the unit of the conversion, whatever unit is
  detected for the whole prompt; the detected unit is used when no unit is captured.
  In \<open>cube size 2in\<close> the keyword \<open>side\<close> finds nothing, the keyword \<open>size\<close> captures
  the number \<open>2\<close> and the unit \<open>in\<close>, and the size is 0.0508 (2 times 0.0254) although
  the detected unit is the millimeter, under which the 2 would be 0.002. The same size
  is returned by \<open>cube size 2in 3cm\<close>, whose detected unit is the centimeter, and by
  \<open>cube 5 size 2in\<close>, whose first number is 0.005.\<close>

theorem C7_unit_next_to_number:
  "(float_group ops m 1 = Inr v \<longrightarrow> m 2 = Some u \<longrightarrow> u \<noteq> [] \<longrightarrow>
      match_value ops prompt m = Inr (convert_to_meters ops v u))
   \<and> (float_group ops m 1 = Inr v \<longrightarrow> m 2 = None \<longrightarrow>
      match_value ops prompt m = Inr (convert_to_meters ops v (detect_units prompt)))
   \<and> (m 1 = Some t \<longrightarrow> py_float ops t = Inr v \<longrightarrow> m 2 = Some u \<longrightarrow> u \<noteq> [] \<longrightarrow>
      convert_all ops default_unit ms = Inr rest \<longrightarrow>
      convert_all ops default_unit (m # ms) = Inr (convert_to_meters ops v u # rest))
   \<and> map_option (\<lambda>m. (m 1, m 2))
        (re_search (keyword_first_re ''size'') (str_lower ''cube size 2in''))
       = Some (Some ''2'', Some ''in'')
   \<and> extract_dimension exact ''cube size 2in'' [''side''] = Inr None
   \<and> extract_dimension exact ''cube size 2in'' [''side'', ''size'', ''length'']
       = Inr (Some (508 / 10000))
   \<and> detect_units ''cube size 2in'' = ''mm''
   \<and> convert_to_meters exact 2 ''in'' = 2 * (254 / 10000)
   \<and> convert_to_meters exact 2 (detect_units ''cube size 2in'') = 2 / 1000
   \<and> parse_prompt exact ''cube size 2in'' =
       Inr (Some \<lparr>shape_type = ''cube'', params = [(''size'', PyFloat (508 / 10000))],
                  units = ''mm'', is_2d = False\<rparr>)
   \<and> detect_units ''cube size 2in 3cm'' = ''cm''
   \<and> extract_dimension exact ''cube size 2in 3cm'' [''side'', ''size'', ''length'']
       = Inr (Some (508 / 10000))
   \<and> parse_prompt exact ''cube size 2in 3cm'' =
       Inr (Some \<lparr>shape_type = ''cube'', params = [(''size'', PyFloat (508 / 10000))],
                  units = ''cm'', is_2d = False\<rparr>)
   \<and> extract_all_numbers exact ''cube 5 size 2in'' = Inr [5 / 1000, 508 / 10000]
   \<and> parse_prompt exact ''cube 5 size 2in'' =
       Inr (Some \<lparr>shape_type = ''cube'', params = [(''size'', PyFloat (508 / 10000))],
                  units = ''mm'', is_2d = False\<rparr>)"
proof (intro conjI impI)
  assume "float_group ops m 1 = Inr v" "m 2 = Some u" "u \<noteq> []"
  then show "match_value ops prompt m = Inr (convert_to_meters ops v u)"
    by (simp add: match_value_def)
next
  assume "float_group ops m 1 = Inr v" "m 2 = None"
  then show "match_value ops prompt m = Inr (convert_to_meters ops v (detect_units prompt))"
    by (simp add: match_value_def)
next
  assume "m 1 = Some t" "py_float ops t = Inr v" "m 2 = Some u" "u \<noteq> []"
    "convert_all ops default_unit ms = Inr rest"
  then show "convert_all ops default_unit (m # ms) = Inr (convert_to_meters ops v u # rest)"
    by simp
qed code_simp+

text \<open>Claim C7 at a match with the groups \<open>2\<close> and \<open>in\<close> in a prompt whose detected unit
  is the centimeter, and at a match without a unit.\<close>

theorem C7_witness:
  "float_group exact groups_2_in 1 = Inr 2 \<and> groups_2_in 2 = Some ''in'' \<and> ''in'' \<noteq> []
   \<and> detect_units ''cube size 2in 3cm'' = ''cm''
   \<and> match_value exact ''cube size 2in 3cm'' groups_2_in = Inr (508 / 10000)
   \<and> float_group exact groups_2 1 = Inr 2 \<and> groups_2 2 = None
   \<and> match_value exact ''cube size 2 and 3cm'' groups_2 = Inr (2 / 100)
   \<and> groups_2_in 1 = Some ''2'' \<and> py_float exact ''2'' = Inr 2
   \<and> convert_all exact ''cm'' [] = Inr []
   \<and> convert_all exact ''cm'' [groups_2_in] = Inr [508 / 10000]"
proof -
  have f: "float_group exact groups_2_in 1 = Inr 2" by code_simp
  have u: "groups_2_in 2 = Some ''in''" by (simp add: groups_2_in_def)
  have n: "''in'' \<noteq> []" by simp
  have f2: "float_group exact groups_2 1 = Inr 2" by code_simp
  have u2: "groups_2 2 = None" by (simp add: groups_2_def no_groups_def)
  have g1: "groups_2_in 1 = Some ''2''" by (simp add: groups_2_in_def)
  have pf: "py_float exact ''2'' = Inr 2" by code_simp
  have ca: "convert_all exact ''cm'' [] = Inr []" by simp
  have d: "detect_units ''cube size 2in 3cm'' = ''cm''" by code_simp
  have d2: "detect_units ''cube size 2 and 3cm'' = ''cm''" by code_simp
  have c1: "convert_to_meters exact 2 ''in'' = 508 / 10000" by code_simp
  have c2: "convert_to_meters exact 2 ''cm'' = 2 / 100" by code_simp
  have a: "match_value exact ''cube size 2in 3cm'' groups_2_in = Inr (convert_to_meters exact 2 ''in'')"
    using C7_unit_next_to_number [of exact groups_2_in 2 "''in''" "''cube size 2in 3cm''"] f u n
    by blast
  have b: "match_value exact ''cube size 2 and 3cm'' groups_2
      = Inr (convert_to_meters exact 2 (detect_units ''cube size 2 and 3cm''))"
    using C7_unit_next_to_number [of exact groups_2 2 _ "''cube size 2 and 3cm''"] f2 u2
    by blast
  have c: "convert_all exact ''cm'' [groups_2_in] = Inr [convert_to_meters exact 2 ''in'']"
    using C7_unit_next_to_number [of exact groups_2_in 2 "''in''" _ "''2''" "''cm''" "[]" "[]"]
      g1 pf u n ca by blast
  show ?thesis using f u n d f2 u2 g1 pf ca a b c by (simp add: c1 c2 d2)
qed




text \<open>Claim C9. A one-letter keyword is matched without a word boundary. In \<open>cylinder 5\<close>
  the keyword \<open>radius\<close> finds nothing, the keyword \<open>r\<close> matches the last letter of
  \<open>cylinder\<close> followed by the number and captures \<open>5\<close>; the result is a cylinder of
  radius 0.005 (5 read as millimeters) and of the default height 0.02.\<close>

theorem C9_single_letter_keyword:
  "parse_prompt exact ''cylinder 5'' =
     Inr (Some \<lparr>shape_type = ''cylinder'',
                params = [(''radius'', PyFloat (5 / 1000)), (''height'', PyFloat (2 / 100))],
                units = ''mm'', is_2d = False\<rparr>)
   \<and> extract_dimension exact ''cylinder 5'' [''radius''] = Inr None
   \<and> extract_dimension exact ''cylinder 5'' [''r''] = Inr (Some (5 / 1000))
   \<and> map_option (\<lambda>m. m 1) (re_search (keyword_first_re ''r'') ''cylinder 5'') = Some (Some ''5'')
   \<and> extract_dimension exact ''cylinder 5'' [''height'', ''tall'', ''long'', ''h''] = Inr None"
  by (intro conjI; code_simp)




end
